theory Spec2Isabelle
  imports Complex_Main "HOL-Library.AList"
begin

section \<open>Numbers of the host language\<close>

text \<open>
  The services are TypeScript. A \<open>number\<close> that holds a measurement (magnitude, depth,
  coordinates, exchange rates) is a real, the value of the double; a \<open>Date\<close> is its
  epoch value in milliseconds, an integer; counters and request budgets are integers.

  The deduplication test and the exchange-rate overlay turn on how a result is rounded,
  so their arithmetic is the IEEE one: every operation is followed by \<open>fl\<close>, the
  rounding of a real to the nearest double (53 significant bits, ties to the even
  significand, gradual underflow), and a decimal literal \<open>d\<close> of the source stands for
  \<open>fl d\<close>. \<open>NaN\<close>, the infinities and overflow are outside the model. The scoring
  functions of the risk engine are taken over the reals.
\<close>

definition pow2 :: "int \<Rightarrow> real" where
  "pow2 e = (if 0 \<le> e then 2 ^ nat e else 1 / 2 ^ nat (- e))"

definition roundTiesToEven :: "real \<Rightarrow> int" where
  "roundTiesToEven r =
     (let n = \<lfloor>r\<rfloor>; d = r - of_int n
      in if d < 1 / 2 then n
         else if 1 / 2 < d then n + 1
         else if even n then n else n + 1)"

definition binade :: "real \<Rightarrow> int" where
  \<comment> \<open>The exponent \<open>e\<close> with \<open>2 ^ e \<le> |x| < 2 ^ (e + 1)\<close>, held at \<open>-1022\<close> below the normal range.\<close>
  "binade x = max \<lfloor>log 2 \<bar>x\<bar>\<rfloor> (- 1022)"

definition fl :: "real \<Rightarrow> real" where
  "fl x =
     (if x = 0 then 0
      else of_int (roundTiesToEven (x / pow2 (binade x - 52))) * pow2 (binade x - 52))"

definition fadd :: "real \<Rightarrow> real \<Rightarrow> real" where
  "fadd a b = fl (a + b)"

definition fsub :: "real \<Rightarrow> real \<Rightarrow> real" where
  "fsub a b = fl (a - b)"

definition fmul :: "real \<Rightarrow> real \<Rightarrow> real" where
  "fmul a b = fl (a * b)"

definition js_round :: "real \<Rightarrow> int" where
  \<comment> \<open>\<open>Math.round\<close>: the nearest integer, a tie going up.\<close>
  "js_round x = \<lfloor>x + 1 / 2\<rfloor>"

definition atan2 :: "real \<Rightarrow> real \<Rightarrow> real" where
  \<comment> \<open>\<open>Math.atan2(y, x)\<close>: the angle of the point \<open>(x, y)\<close>.\<close>
  "atan2 y x =
     (if 0 < x then arctan (y / x)
      else if x < 0 \<and> 0 \<le> y then arctan (y / x) + pi
      else if x < 0 then arctan (y / x) - pi
      else if 0 < y then pi / 2
      else if y < 0 then - (pi / 2)
      else 0)"

section \<open>Shared schema\<close>

record InsertEarthquake =
  place :: string
  magnitude :: real
  depth :: real
  latitude :: real
  longitude :: real
  time :: int
  flareNetworkId :: "string option"
  verified :: bool
  source :: string
  url :: "string option"
  tsunami :: bool

text \<open>
  A stored earthquake adds the identity and the creation time. \<open>flareVerified\<close> is the
  property that \<open>verifyEarthquakeData\<close> writes on the stored object; it is absent (false)
  on a freshly created one.
\<close>

record Earthquake = InsertEarthquake +
  quake_id :: string
  createdAt :: int
  flareVerified :: bool

section \<open>Financial impact oracle\<close>

datatype RiskLevel = LOW | MEDIUM | HIGH | CRITICAL

record FinancialImpactData =
  fi_earthquakeId :: string
  fi_timestamp :: int
  marketImpactScore :: int
  volatilityIndex :: int
  affectedMarkets :: "string list"
  affectedCurrencies :: "string list"
  riskLevel :: RiskLevel
  marketSpecificScores :: "(string \<times> int) list"
  summary :: string
  recommendations :: "string list"

text \<open>
  What the host supplies to one call: the successive results of \<open>Math.random()\<close>, and
  the conversion of a number to text that a template literal performs.
\<close>

record host =
  random :: "nat \<Rightarrow> real"
  numberToString :: "real \<Rightarrow> string"

text \<open>
  The module state: the cache of assessments keyed by earthquake identity, and how many
  random numbers have been drawn so far.
\<close>

record ImpactState =
  financialImpactCache :: "string \<rightharpoonup> FinancialImpactData"
  randomDraws :: nat

definition calculateMagnitudeImpact :: "real \<Rightarrow> real" where
  "calculateMagnitudeImpact m =
     (if m < 5.0 then m * 5
      else if m < 6.0 then 25 + (m - 5.0) * 20
      else if m < 7.0 then 45 + (m - 6.0) * 25
      else 70 + min 30 ((m - 7.0) * 15))"

definition calculateDepthImpact :: "real \<Rightarrow> real" where
  "calculateDepthImpact d =
     (if d < 10 then 80 + max 0 (10 - d) * 2
      else if d < 30 then 60 + max 0 (30 - d)
      else if d < 70 then 40 + max 0 (70 - d) / 2
      else max 10 (100 - d))"

definition deg2rad :: "real \<Rightarrow> real" where
  "deg2rad deg = deg * (pi / 180)"

definition isLocationNearRegion :: "real \<Rightarrow> real \<Rightarrow> real \<Rightarrow> real \<Rightarrow> real \<Rightarrow> bool" where
  "isLocationNearRegion lat1 lon1 lat2 lon2 radius =
     (let R = 6371;
          dLat = deg2rad (lat2 - lat1);
          dLon = deg2rad (lon2 - lon1);
          a = sin (dLat / 2) * sin (dLat / 2) +
              cos (deg2rad lat1) * cos (deg2rad lat2) * sin (dLon / 2) * sin (dLon / 2);
          c = 2 * atan2 (sqrt a) (sqrt (1 - a));
          distance = R * c
      in distance \<le> radius)"

definition calculateLocationImpact :: "real \<Rightarrow> real \<Rightarrow> real" where
  "calculateLocationImpact lat lon =
     (if isLocationNearRegion lat lon 35.6762 139.6503 500 then 90
      else if isLocationNearRegion lat lon 37.7749 (-122.4194) 300 then 85
      else if isLocationNearRegion lat lon 40.7128 (-74.0060) 300 then 90
      else if isLocationNearRegion lat lon 51.5074 (-0.1278) 300 then 85
      else if isLocationNearRegion lat lon 22.3193 114.1694 300 then 90
      else if isLocationNearRegion lat lon 1.3521 103.8198 300 then 80
      else 30)"

definition getAffectedMarketsAndCurrencies :: "real \<Rightarrow> real \<Rightarrow> string list \<times> string list" where
  "getAffectedMarketsAndCurrencies lat lon =
     (let japan = isLocationNearRegion lat lon 35.6762 139.6503 800;
          usWest = isLocationNearRegion lat lon 37.7749 (-122.4194) 800;
          australia = isLocationNearRegion lat lon (-33.8688) 151.2093 800;
          china = isLocationNearRegion lat lon 31.2304 121.4737 800;
          markets = (if japan then [''NIKKEI'', ''JPX''] else []) @
                    (if usWest then [''NASDAQ'', ''NYSE'', ''SP500''] else []) @
                    (if australia then [''ASX200''] else []) @
                    (if china then [''SSE'', ''SZSE''] else []);
          currencies = (if japan then [''JPY''] else []) @
                       (if usWest then [''USD''] else []) @
                       (if australia then [''AUD''] else []) @
                       (if china then [''CNY''] else [])
      in if length markets = 0
         then (markets @ [''GLOBAL_MARKETS''], currencies @ [''USD'', ''EUR''])
         else (markets, currencies))"

fun join :: "string \<Rightarrow> string list \<Rightarrow> string" where
  "join sep [] = []"
| "join sep [x] = x"
| "join sep (x # y # ys) = x @ sep @ join sep (y # ys)"

definition generateRecommendations :: "RiskLevel \<Rightarrow> string list \<Rightarrow> string list \<Rightarrow> string list" where
  "generateRecommendations level markets currencies =
     (case level of
        LOW \<Rightarrow>
          [''Monitor situation for potential supply chain disruptions in affected regions.'',
           ''No immediate market action required, continue normal operations.'']
      | MEDIUM \<Rightarrow>
          [''Monitor '' @ join '', '' markets @ '' for increased volatility in the next 24-48 hours.'',
           ''Consider hedging exposure to '' @ join '', '' currencies @ '' in the short term.'',
           ''Review supply chain resilience in affected regions.'']
      | HIGH \<Rightarrow>
          [''Anticipate significant volatility in '' @ join '', '' markets @ '' for 3-5 days.'',
           ''Implement hedging strategies for '' @ join '', '' currencies @ '' positions.'',
           ''Activate business continuity plans for operations in affected regions.'',
           ''Consider temporary portfolio reallocation to reduce risk exposure.'']
      | CRITICAL \<Rightarrow>
          [''Immediate action required to mitigate exposure to '' @ join '', '' markets @ ''.'',
           ''Implement maximum hedging for '' @ join '', '' currencies @ '' positions.'',
           ''Activate emergency business continuity protocols.'',
           ''Prepare for potential market circuit breakers and trading halts.'',
           ''Set up crisis management team to monitor developments.''])"

fun riskLevelName :: "RiskLevel \<Rightarrow> string" where
  "riskLevelName LOW = ''LOW''"
| "riskLevelName MEDIUM = ''MEDIUM''"
| "riskLevelName HIGH = ''HIGH''"
| "riskLevelName CRITICAL = ''CRITICAL''"

definition generateSummary :: "host \<Rightarrow> Earthquake \<Rightarrow> RiskLevel \<Rightarrow> int \<Rightarrow> int \<Rightarrow> string" where
  "generateSummary h earthquake level score vol =
     riskLevelName level @ '' financial impact risk from M'' @
     numberToString h (magnitude earthquake) @ '' earthquake near '' @ place earthquake @
     ''. Market impact score: '' @ numberToString h (of_int score) @
     ''/100, Expected volatility index: '' @ numberToString h (of_int vol) @
     ''/100. Monitor markets for potential disruptions and implement appropriate risk management strategies.''"

text \<open>
  The \<open>forEach\<close> over the affected markets: the market at position \<open>i\<close> is scored with the
  draw number \<open>n + i\<close>, and assigned under its name (a later assignment to the same name
  replaces the earlier one in place, as a property assignment does).
\<close>

fun marketScores :: "host \<Rightarrow> int \<Rightarrow> nat \<Rightarrow> string list \<Rightarrow> (string \<times> int) list \<Rightarrow> (string \<times> int) list" where
  "marketScores h score n [] acc = acc"
| "marketScores h score n (market # rest) acc =
     marketScores h score (Suc n) rest
       (AList.update market
          (min 100 (js_round (of_int score * (0.7 + random h n * 0.5)))) acc)"

definition riskLevelOf :: "int \<Rightarrow> RiskLevel" where
  \<comment> \<open>The \<open>if\<close> chain on the market impact score.\<close>
  "riskLevelOf score =
     (if score < 30 then LOW
      else if score < 60 then MEDIUM
      else if score < 85 then HIGH
      else CRITICAL)"

fun riskRank :: "RiskLevel \<Rightarrow> nat" where
  \<comment> \<open>The position of a level in the order \<open>LOW < MEDIUM < HIGH < CRITICAL\<close>.\<close>
  "riskRank LOW = 0"
| "riskRank MEDIUM = 1"
| "riskRank HIGH = 2"
| "riskRank CRITICAL = 3"

definition generateFinancialImpactData ::
  "host \<Rightarrow> int \<Rightarrow> ImpactState \<Rightarrow> Earthquake \<Rightarrow> FinancialImpactData \<times> ImpactState" where
  "generateFinancialImpactData h now s earthquake =
     (case financialImpactCache s (quake_id earthquake) of
        Some cached \<Rightarrow> (cached, s)
      | None \<Rightarrow>
         (let magnitudeImpact = calculateMagnitudeImpact (magnitude earthquake);
              depthImpact = calculateDepthImpact (depth earthquake);
              locationImpact = calculateLocationImpact (latitude earthquake) (longitude earthquake);
              score = min 100 (js_round (magnitudeImpact * 0.5 + depthImpact * 0.2 + locationImpact * 0.3));
              level = riskLevelOf score;
              (markets, currencies) =
                 getAffectedMarketsAndCurrencies (latitude earthquake) (longitude earthquake);
              n = randomDraws s;
              vol = min 100 (js_round (of_int score * 0.8 + random h n * 20));
              scores = marketScores h score (Suc n) markets [];
              recs = generateRecommendations level markets currencies;
              summ = generateSummary h earthquake level score vol;
              impactData = \<lparr> fi_earthquakeId = quake_id earthquake,
                             fi_timestamp = now,
                             marketImpactScore = score,
                             volatilityIndex = vol,
                             affectedMarkets = markets,
                             affectedCurrencies = currencies,
                             riskLevel = level,
                             marketSpecificScores = scores,
                             summary = summ,
                             recommendations = recs \<rparr>
          in (impactData,
              s\<lparr> financialImpactCache := (financialImpactCache s)(quake_id earthquake \<mapsto> impactData),
                 randomDraws := Suc n + length markets \<rparr>)))"

fun mapImpact ::
  "host \<Rightarrow> int \<Rightarrow> ImpactState \<Rightarrow> Earthquake list \<Rightarrow>
   (Earthquake \<times> FinancialImpactData) list \<times> ImpactState" where
  "mapImpact h now s [] = ([], s)"
| "mapImpact h now s (quake # rest) =
     (case generateFinancialImpactData h now s quake of
        (impact, s') \<Rightarrow>
          (case mapImpact h now s' rest of
             (others, s'') \<Rightarrow> ((quake, impact) # others, s'')))"

section \<open>Storage\<close>

record InsertAlert =
  message :: string
  severity :: string
  alert_magnitude :: real
  location :: string
  earthquakeId :: string
  timestamp :: int
  active :: bool

record Alert = InsertAlert +
  alert_id :: nat

text \<open>
  The in-memory store. A JavaScript \<open>Map\<close> keeps its keys in insertion order and
  \<open>set\<close> on a present key replaces the value in place: an association list with
  \<open>AList.update\<close>. Only the earthquake and alert tables are modelled.
\<close>

record MemStorage =
  earthquakes :: "(string \<times> Earthquake) list"
  alerts :: "(nat \<times> Alert) list"
  alertIdCounter :: nat

record EarthquakeFilters =
  timeRange :: string
  filter_magnitude :: string
  region :: string

definition regionFilter :: "string \<Rightarrow> Earthquake \<Rightarrow> bool" where
  "regionFilter r quake =
     (if r = ''north_america'' then
        latitude quake \<ge> 15 \<and> latitude quake \<le> 90 \<and> longitude quake \<ge> -170 \<and> longitude quake \<le> -30
      else if r = ''south_america'' then
        latitude quake \<ge> -60 \<and> latitude quake \<le> 15 \<and> longitude quake \<ge> -90 \<and> longitude quake \<le> -30
      else if r = ''europe'' then
        latitude quake \<ge> 35 \<and> latitude quake \<le> 75 \<and> longitude quake \<ge> -25 \<and> longitude quake \<le> 45
      else if r = ''asia'' then
        latitude quake \<ge> 0 \<and> latitude quake \<le> 80 \<and> longitude quake \<ge> 45 \<and> longitude quake \<le> 180
      else if r = ''africa'' then
        latitude quake \<ge> -40 \<and> latitude quake \<le> 40 \<and> longitude quake \<ge> -20 \<and> longitude quake \<le> 55
      else if r = ''australia'' then
        latitude quake \<ge> -50 \<and> latitude quake \<le> -10 \<and> longitude quake \<ge> 110 \<and> longitude quake \<le> 180
      else True)"

text \<open>
  \<open>getEarthquakes\<close>. \<open>parseFloat\<close> is the host's (\<open>None\<close> is \<open>NaN\<close>, against which every
  comparison is false); \<open>now\<close> is \<open>Date.now()\<close>. The final \<open>sort\<close> is stable, newest first.
\<close>

definition getEarthquakes ::
  "(string \<Rightarrow> real option) \<Rightarrow> int \<Rightarrow> MemStorage \<Rightarrow> EarthquakeFilters \<Rightarrow> Earthquake list" where
  "getEarthquakes parseFloat now st filters =
     (let quakes = map snd (earthquakes st);
          timeFilter =
            (if timeRange filters = ''7d'' then 7 * 24 * 60 * 60 * 1000
             else if timeRange filters = ''30d'' then 30 * 24 * 60 * 60 * 1000
             else if timeRange filters = ''1y'' then 365 * 24 * 60 * 60 * 1000
             else 24 * 60 * 60 * 1000);
          inTime = filter (\<lambda>quake. now - time quake \<le> timeFilter) quakes;
          byMagnitude =
            (if filter_magnitude filters \<noteq> ''all'' then
               (case parseFloat (filter_magnitude filters) of
                  None \<Rightarrow> []
                | Some minMagnitude \<Rightarrow> filter (\<lambda>quake. magnitude quake \<ge> minMagnitude) inTime)
             else inTime);
          byRegion =
            (if region filters \<noteq> ''global'' then filter (regionFilter (region filters)) byMagnitude
             else byMagnitude)
      in sort_key (\<lambda>quake. - time quake) byRegion)"

definition getEarthquake :: "MemStorage \<Rightarrow> string \<Rightarrow> Earthquake option" where
  "getEarthquake st ident = map_of (earthquakes st) ident"

text \<open>\<open>createEarthquake\<close>; \<open>newId\<close> is the random identity the host produced.\<close>

definition createEarthquake ::
  "string \<Rightarrow> int \<Rightarrow> MemStorage \<Rightarrow> InsertEarthquake \<Rightarrow> Earthquake \<times> MemStorage" where
  "createEarthquake newId now st ins =
     (let earthquake =
            \<lparr> place = place ins, magnitude = magnitude ins, depth = depth ins,
              latitude = latitude ins, longitude = longitude ins, time = time ins,
              flareNetworkId = flareNetworkId ins, verified = verified ins,
              source = source ins, url = url ins, tsunami = tsunami ins,
              quake_id = newId, createdAt = now, flareVerified = False \<rparr>
      in (earthquake, st\<lparr> earthquakes := AList.update newId earthquake (earthquakes st) \<rparr>))"

text \<open>
  \<open>updateEarthquake\<close>; the partial record \<open>data\<close> that is spread over the stored one is
  given as the function that overlays it.
\<close>

definition updateEarthquake ::
  "MemStorage \<Rightarrow> string \<Rightarrow> (Earthquake \<Rightarrow> Earthquake) \<Rightarrow> Earthquake option \<times> MemStorage" where
  "updateEarthquake st ident data =
     (case map_of (earthquakes st) ident of
        None \<Rightarrow> (None, st)
      | Some earthquake \<Rightarrow>
          (let updatedEarthquake = data earthquake
           in (Some updatedEarthquake,
               st\<lparr> earthquakes := AList.update ident updatedEarthquake (earthquakes st) \<rparr>)))"

definition createAlert :: "MemStorage \<Rightarrow> InsertAlert \<Rightarrow> Alert \<times> MemStorage" where
  "createAlert st ins =
     (let ident = alertIdCounter st;
          alert = \<lparr> message = message ins, severity = severity ins,
                    alert_magnitude = alert_magnitude ins, location = location ins,
                    earthquakeId = earthquakeId ins, timestamp = timestamp ins,
                    active = active ins, alert_id = ident \<rparr>
      in (alert, st\<lparr> alerts := AList.update ident alert (alerts st),
                      alertIdCounter := Suc ident \<rparr>))"

section \<open>Flare network\<close>

definition verifyEarthquakeData :: "MemStorage \<Rightarrow> string \<Rightarrow> bool \<times> MemStorage" where
  \<comment> \<open>The boolean is the \<open>success\<close> field of the result.\<close>
  "verifyEarthquakeData st ident =
     (case getEarthquake st ident of
        None \<Rightarrow> (False, st)
      | Some earthquake \<Rightarrow>
          (True, snd (updateEarthquake st ident (\<lambda>_. earthquake\<lparr> flareVerified := True \<rparr>))))"

section \<open>Earthquake service\<close>

text \<open>
  The raw feed is untyped JSON: a property that may be missing is an option, \<open>None\<close> for
  \<open>undefined\<close>. Reading a property of \<open>undefined\<close>, or destructuring it, throws a
  \<open>TypeError\<close>.
\<close>

datatype js_error = TypeError

record RawProperties =
  raw_place :: "string option"
  raw_mag :: "real option"
  raw_time :: "int option"
  raw_url :: "string option"
  raw_tsunami :: "int option"

record RawGeometry =
  coordinates :: "real list option"

record RawFeature =
  properties :: "RawProperties option"
  geometry :: "RawGeometry option"

record RawData =
  features :: "RawFeature list option"

text \<open>
  What \<open>parseEarthquakeData\<close> builds at run time: the fields of an \<open>InsertEarthquake\<close>, each
  possibly \<open>undefined\<close> (for the time: an invalid \<open>Date\<close>) when the feed lacked it.
\<close>

record ParsedEarthquake =
  p_place :: "string option"
  p_magnitude :: "real option"
  p_depth :: "real option"
  p_latitude :: "real option"
  p_longitude :: "real option"
  p_time :: "int option"
  p_source :: string
  p_url :: "string option"
  p_tsunami :: bool
  p_verified :: bool

definition element :: "'a list \<Rightarrow> nat \<Rightarrow> 'a option" where
  \<comment> \<open>Array destructuring: a position beyond the end yields \<open>undefined\<close>.\<close>
  "element xs i = (if i < length xs then Some (xs ! i) else None)"

definition parseFeature :: "RawFeature \<Rightarrow> js_error + ParsedEarthquake" where
  \<comment> \<open>The callback of \<open>map\<close>.\<close>
  "parseFeature feature =
     (case geometry feature of
        None \<Rightarrow> Inl TypeError
      | Some g \<Rightarrow>
         (case coordinates g of
            None \<Rightarrow> Inl TypeError
          | Some cs \<Rightarrow>
             (case properties feature of
                None \<Rightarrow> Inl TypeError
              | Some props \<Rightarrow>
                  Inr \<lparr> p_place = raw_place props,
                        p_magnitude = raw_mag props,
                        p_depth = element cs 2,
                        p_latitude = element cs 1,
                        p_longitude = element cs 0,
                        p_time = raw_time props,
                        p_source = ''USGS'',
                        p_url = raw_url props,
                        p_tsunami = (raw_tsunami props = Some 1),
                        p_verified = False \<rparr>)))"

fun mapFeatures :: "RawFeature list \<Rightarrow> js_error + ParsedEarthquake list" where
  \<comment> \<open>\<open>Array.map\<close> with a callback that may throw: the first exception ends it.\<close>
  "mapFeatures [] = Inr []"
| "mapFeatures (feature # rest) =
     (case parseFeature feature of
        Inl e \<Rightarrow> Inl e
      | Inr quake \<Rightarrow>
          (case mapFeatures rest of
             Inl e \<Rightarrow> Inl e
           | Inr quakes \<Rightarrow> Inr (quake # quakes)))"

definition parseEarthquakeData :: "RawData \<Rightarrow> ParsedEarthquake list" where
  \<comment> \<open>\<open>try { return rawData.features.map(...) } catch { return [] }\<close>\<close>
  "parseEarthquakeData rawData =
     (case features rawData of
        None \<Rightarrow> []
      | Some fs \<Rightarrow>
          (case mapFeatures fs of
             Inl e \<Rightarrow> []
           | Inr quakes \<Rightarrow> quakes))"

definition sameEvent :: "Earthquake \<Rightarrow> InsertEarthquake \<Rightarrow> bool" where
  \<comment> \<open>The predicate given to \<open>some\<close> in \<open>processNewEarthquakes\<close>.\<close>
  "sameEvent existing quakeData \<longleftrightarrow>
     place existing = place quakeData \<and>
     \<bar>fsub (magnitude existing) (magnitude quakeData)\<bar> < fl 0.1 \<and>
     \<bar>time existing - time quakeData\<bar> < 1000 * 60 * 5"

text \<open>
  One round of the loop of \<open>processNewEarthquakes\<close>, for the candidate \<open>quakeData\<close>:
  \<open>now\<close> is the clock and \<open>newId\<close> the identity the host would give a new earthquake in
  this round. The result is the admitted earthquake, if any, and the store afterwards.
\<close>

definition processQuake ::
  "(string \<Rightarrow> real option) \<Rightarrow> int \<Rightarrow> string \<Rightarrow> MemStorage \<Rightarrow> InsertEarthquake \<Rightarrow>
   Earthquake option \<times> MemStorage" where
  "processQuake parseFloat now newId st quakeData =
     (let existingEarthquakes =
            getEarthquakes parseFloat now st
              \<lparr> timeRange = ''24h'', filter_magnitude = ''all'', region = ''global'' \<rparr>;
          exists = list_ex (\<lambda>existing. sameEvent existing quakeData) existingEarthquakes
      in if \<not> exists then
           (case createEarthquake newId now st quakeData of
              (earthquake, st1) \<Rightarrow>
                (let st2 =
                       (if magnitude quakeData \<ge> 4.0 then
                          snd (createAlert st1
                                 \<lparr> message = (if magnitude quakeData \<ge> 6.0
                                               then ''Major Earthquake Warning''
                                               else ''Moderate Earthquake Alert''),
                                   severity = (if magnitude quakeData \<ge> 6.0 then ''high'' else ''medium''),
                                   alert_magnitude = magnitude quakeData,
                                   location = place quakeData,
                                   earthquakeId = quake_id earthquake,
                                   timestamp = now,
                                   active = True \<rparr>)
                        else st1);
                     st3 =
                       (if magnitude quakeData \<ge> 5.0
                        then snd (verifyEarthquakeData st2 (quake_id earthquake))
                        else st2)
                 in (Some earthquake, st3)))
         else (None, st))"

text \<open>
  The loop: round \<open>k\<close> reads the clock \<open>clock k\<close> and would name a new earthquake \<open>ids k\<close>.
\<close>

fun processLoop ::
  "(string \<Rightarrow> real option) \<Rightarrow> (nat \<Rightarrow> int) \<Rightarrow> (nat \<Rightarrow> string) \<Rightarrow> nat \<Rightarrow> MemStorage \<Rightarrow>
   InsertEarthquake list \<Rightarrow> Earthquake list \<times> MemStorage" where
  "processLoop parseFloat clock ids k st [] = ([], st)"
| "processLoop parseFloat clock ids k st (quakeData # rest) =
     (case processQuake parseFloat (clock k) (ids k) st quakeData of
        (admitted, st') \<Rightarrow>
          (case processLoop parseFloat clock ids (Suc k) st' rest of
             (newEarthquakes, st'') \<Rightarrow>
               ((case admitted of None \<Rightarrow> [] | Some earthquake \<Rightarrow> [earthquake]) @ newEarthquakes,
                st'')))"

definition processNewEarthquakes ::
  "(string \<Rightarrow> real option) \<Rightarrow> (nat \<Rightarrow> int) \<Rightarrow> (nat \<Rightarrow> string) \<Rightarrow> MemStorage \<Rightarrow>
   InsertEarthquake list \<Rightarrow> Earthquake list \<times> MemStorage" where
  "processNewEarthquakes parseFloat clock ids st earthquakes_in =
     processLoop parseFloat clock ids 0 st earthquakes_in"

section \<open>Exchange rate service\<close>

record QuakeRef =
  ref_id :: string
  ref_magnitude :: real
  ref_place :: string

record ExchangeRateData =
  date :: string
  rate :: real
  rate_earthquake :: "QuakeRef option"

record CurrencyPair =
  base :: string
  quote :: string
  pair_name :: string

text \<open>
  \<open>parseFloat(x.toFixed(4))\<close>. \<open>toFixed\<close> takes the integer \<open>n\<close> for which \<open>n / 10000\<close> is
  nearest to the exact value of \<open>|x|\<close>, the larger one at a tie, and prints it with four
  decimals and the sign of \<open>x\<close>; \<open>parseFloat\<close> reads that decimal back as a double. From
  \<open>10 ^ 21\<close> on \<open>toFixed\<close> prints the number itself.
\<close>

definition toFixed4 :: "real \<Rightarrow> real" where
  "toFixed4 x =
     (if 10 ^ 21 \<le> \<bar>x\<bar> then x
      else if x < 0 then - fl (of_int \<lfloor>- x * 10000 + 1 / 2\<rfloor> / 10000)
      else fl (of_int \<lfloor>x * 10000 + 1 / 2\<rfloor> / 10000))"

fun findIndex :: "('a \<Rightarrow> bool) \<Rightarrow> 'a list \<Rightarrow> nat option" where
  \<comment> \<open>\<open>Array.findIndex\<close>; \<open>None\<close> stands for \<open>-1\<close>.\<close>
  "findIndex P [] = None"
| "findIndex P (x # xs) =
     (if P x then Some 0 else (case findIndex P xs of None \<Rightarrow> None | Some i \<Rightarrow> Some (Suc i)))"

text \<open>
  One round of the loop of \<open>enrichExchangeRateDataWithEarthquakes\<close>, for the significant
  earthquake \<open>quake\<close>. \<open>formatDate\<close> is the host's rendering of an instant as
  \<open>yyyy-MM-dd\<close>.
\<close>

definition applyQuake ::
  "(int \<Rightarrow> string) \<Rightarrow> CurrencyPair \<Rightarrow> Earthquake \<Rightarrow> ExchangeRateData list \<Rightarrow> ExchangeRateData list" where
  "applyQuake formatDate currencyPair quake result =
     (let quakeDate = formatDate (time quake)
      in case findIndex (\<lambda>r. date r = quakeDate) result of
           None \<Rightarrow> result
         | Some matchingRateIndex \<Rightarrow>
            (let impactMagnitude =
                   (if magnitude quake \<ge> 7.0 then fl 0.02
                    else if magnitude quake \<ge> 6.0 then fl 0.01
                    else fl 0.005);
                 impactDirection = (if base currencyPair = ''USD'' then - 1 else 1 :: real);
                 impactedRate =
                   fmul (rate (result ! matchingRateIndex))
                     (fadd 1 (fmul impactDirection impactMagnitude));
                 result1 =
                   result[matchingRateIndex :=
                     (result ! matchingRateIndex)
                       \<lparr> rate := toFixed4 impactedRate,
                         rate_earthquake := Some \<lparr> ref_id = quake_id quake,
                                              ref_magnitude = magnitude quake,
                                              ref_place = place quake \<rparr> \<rparr>]
             in if int matchingRateIndex < int (length result1) - 1 then
                  (let aftershockImpact = fmul impactMagnitude (fl 0.4);
                       aftershockRate =
                         fmul (rate (result1 ! (matchingRateIndex + 1)))
                           (fadd 1 (fmul impactDirection aftershockImpact))
                   in result1[matchingRateIndex + 1 :=
                        (result1 ! (matchingRateIndex + 1)) \<lparr> rate := toFixed4 aftershockRate \<rparr>])
                else result1))"

definition enrichExchangeRateDataWithEarthquakes ::
  "(int \<Rightarrow> string) \<Rightarrow> ExchangeRateData list \<Rightarrow> Earthquake list \<Rightarrow> CurrencyPair \<Rightarrow>
   ExchangeRateData list" where
  "enrichExchangeRateDataWithEarthquakes formatDate exchangeRates quakes currencyPair =
     (let significantQuakes = filter (\<lambda>eq. magnitude eq \<ge> 5.0) quakes
      in fold (applyQuake formatDate currencyPair) significantQuakes exchangeRates)"

section \<open>API keys of the oracle\<close>

record OracleSubscription =
  sub_id :: nat
  apiKey :: string
  subscriber :: string
  organizationName :: string
  contactEmail :: string
  startDate :: int
  endDate :: int
  sub_active :: bool
  remainingRequests :: int
  lastRequestDate :: "int option"

record ApiKeyValidation =
  valid :: bool
  subscriberId :: "string option"
  subscriptionId :: "nat option"
  organization :: "string option"
  val_remainingRequests :: "int option"
  expiresAt :: "int option"

type_synonym ApiKeys = "(string \<times> OracleSubscription) list"

definition invalidKey :: ApiKeyValidation where
  \<comment> \<open>The object \<open>{ valid: false }\<close>.\<close>
  "invalidKey = \<lparr> valid = False, subscriberId = None, subscriptionId = None,
                  organization = None, val_remainingRequests = None, expiresAt = None \<rparr>"

text \<open>
  \<open>validateApiKey\<close>, at the clock \<open>now\<close>. Every operation of the module is given the
  key table and returns it, so that what an operation leaves untouched can be stated.
\<close>

definition validateApiKey :: "int \<Rightarrow> ApiKeys \<Rightarrow> string \<Rightarrow> ApiKeyValidation \<times> ApiKeys" where
  "validateApiKey now keys key =
     (case map_of keys key of
        None \<Rightarrow> (invalidKey, keys)
      | Some subscription \<Rightarrow>
          if \<not> sub_active subscription \<or> endDate subscription < now then (invalidKey, keys)
          else if remainingRequests subscription \<le> 0 then (invalidKey, keys)
          else (\<lparr> valid = True,
                  subscriberId = Some (subscriber subscription),
                  subscriptionId = Some (sub_id subscription),
                  organization = Some (organizationName subscription),
                  val_remainingRequests = Some (remainingRequests subscription),
                  expiresAt = Some (endDate subscription) \<rparr>, keys))"

definition generateRandomApiKey :: "string \<Rightarrow> string \<Rightarrow> string" where
  \<comment> \<open>\<open>r1\<close> and \<open>r2\<close> are the two random fragments the host produced.\<close>
  "generateRandomApiKey r1 r2 = ''qs_'' @ r1 @ r2"

text \<open>
  \<open>createApiKey\<close>. \<open>addDays\<close> is the host's calendar arithmetic
  (\<open>setDate(getDate() + n)\<close>).
\<close>

definition createApiKey ::
  "(int \<Rightarrow> int \<Rightarrow> int) \<Rightarrow> string \<Rightarrow> string \<Rightarrow> int \<Rightarrow> ApiKeys \<Rightarrow>
   string \<Rightarrow> string \<Rightarrow> string \<Rightarrow> int \<Rightarrow> int \<Rightarrow> (string \<times> OracleSubscription) \<times> ApiKeys" where
  "createApiKey addDays r1 r2 now keys subscriber_in organizationName_in contactEmail_in
       durationDays requestLimit =
     (let key = generateRandomApiKey r1 r2;
          subscription =
            \<lparr> sub_id = length keys + 1,
              apiKey = key,
              subscriber = subscriber_in,
              organizationName = organizationName_in,
              contactEmail = contactEmail_in,
              startDate = now,
              endDate = addDays now durationDays,
              sub_active = True,
              remainingRequests = requestLimit,
              lastRequestDate = None \<rparr>
      in ((key, subscription), AList.update key subscription keys))"

definition recordApiRequest :: "int \<Rightarrow> ApiKeys \<Rightarrow> string \<Rightarrow> string + (int \<times> ApiKeys)" where
  \<comment> \<open>\<open>Inl\<close> is the thrown \<open>Error\<close>, with its message.\<close>
  "recordApiRequest now keys key =
     (case map_of keys key of
        None \<Rightarrow> Inl ''Invalid API key''
      | Some subscription \<Rightarrow>
          (let subscription' =
                 subscription\<lparr> remainingRequests := remainingRequests subscription - 1,
                               lastRequestDate := Some now \<rparr>
           in Inr (remainingRequests subscription', AList.update key subscription' keys)))"

text \<open>
  The \<open>verifyApiKey\<close> middleware: either it answers the request itself, with a status and
  an error code, or it hands on to the route with the validation and the remaining
  budget attached. The header is \<open>None\<close> when the request has no \<open>x-api-key\<close>.
\<close>

datatype MiddlewareResult =
    Respond nat string
  | Next ApiKeyValidation int

definition verifyApiKey :: "int \<Rightarrow> ApiKeys \<Rightarrow> string option \<Rightarrow> MiddlewareResult \<times> ApiKeys" where
  "verifyApiKey now keys header =
     (case header of
        None \<Rightarrow> (Respond 401 ''MISSING_API_KEY'', keys)
      | Some key \<Rightarrow>
          if key = [] then (Respond 401 ''MISSING_API_KEY'', keys)
          else
            (case validateApiKey now keys key of
               (validation, keys1) \<Rightarrow>
                 if \<not> valid validation then (Respond 401 ''INVALID_API_KEY'', keys1)
                 else
                   (case recordApiRequest now keys1 key of
                      Inl err \<Rightarrow> (Respond 400 ''REQUEST_RECORDING_FAILED'', keys1)
                    | Inr (remaining, keys2) \<Rightarrow> (Next validation remaining, keys2))))"

fun verifyApiKeys ::
  "ApiKeys \<Rightarrow> (int \<times> string option) list \<Rightarrow> MiddlewareResult list \<times> ApiKeys" where
  \<comment> \<open>A sequence of requests through the middleware, each with its clock and header.\<close>
  "verifyApiKeys keys [] = ([], keys)"
| "verifyApiKeys keys ((now, header) # rest) =
     (case verifyApiKey now keys header of
        (r, keys') \<Rightarrow>
          (case verifyApiKeys keys' rest of (rs, keys'') \<Rightarrow> (r # rs, keys'')))"

section \<open>Queries of the oracle\<close>

definition getEarthquakesWithFinancialImpact ::
  "(string \<Rightarrow> real option) \<Rightarrow> host \<Rightarrow> int \<Rightarrow> ImpactState \<Rightarrow> MemStorage \<Rightarrow> int \<Rightarrow> int \<Rightarrow>
   (Earthquake \<times> FinancialImpactData) list \<times> ImpactState" where
  "getEarthquakesWithFinancialImpact parseFloat h now s st startTime endTime =
     (let quakes = getEarthquakes parseFloat now st
                     \<lparr> timeRange = ''custom'', filter_magnitude = ''all'', region = ''global'' \<rparr>;
          filteredEarthquakes =
            filter (\<lambda>quake. time quake \<ge> startTime \<and> time quake \<le> endTime) quakes
      in mapImpact h now s filteredEarthquakes)"


section \<open>Predicates of the specification\<close>

text \<open>
  The deduplication policy in the words of the specification: some stored event of the
  24-hour window has the same place, a magnitude less than 0.1 away and a time less
  than five minutes away, the magnitudes compared as the numbers they are. The window
  is the one \<open>getEarthquakes\<close> computes at the clock \<open>now\<close>: the events that are not
  older than 24 hours.
\<close>

definition specDuplicate :: "int \<Rightarrow> MemStorage \<Rightarrow> InsertEarthquake \<Rightarrow> bool" where
  "specDuplicate now st c \<longleftrightarrow>
     (\<exists>e \<in> snd ` set (earthquakes st).
        now - time e \<le> 24 * 60 * 60 * 1000 \<and>
        place e = place c \<and>
        \<bar>magnitude e - magnitude c\<bar> < 0.1 \<and>
        \<bar>time e - time c\<bar> < 5 * 60 * 1000)"

text \<open>
  The same policy with the magnitude test as the code computes it: the difference is
  rounded to a double and compared with the double nearest to 0.1.
\<close>

definition duplicateInWindow :: "int \<Rightarrow> MemStorage \<Rightarrow> InsertEarthquake \<Rightarrow> bool" where
  "duplicateInWindow now st c \<longleftrightarrow>
     (\<exists>e \<in> snd ` set (earthquakes st).
        now - time e \<le> 24 * 60 * 60 * 1000 \<and>
        place e = place c \<and>
        \<bar>fl (magnitude e - magnitude c)\<bar> < fl 0.1 \<and>
        \<bar>time e - time c\<bar> < 5 * 60 * 1000)"

text \<open>
  Rounding to four decimals in the words of the specification: the nearest multiple of
  \<open>0.0001\<close>, a tie going up.
\<close>

definition specRound4 :: "real \<Rightarrow> real" where
  "specRound4 x = of_int \<lfloor>x * 10000 + 1 / 2\<rfloor> / 10000"

text \<open>
  The store keeps every earthquake under its own identity. \<open>createEarthquake\<close>
  establishes this and \<open>verifyEarthquakeData\<close> preserves it.
\<close>

definition storeKeyed :: "MemStorage \<Rightarrow> bool" where
  "storeKeyed st \<longleftrightarrow> (\<forall>k e. getEarthquake st k = Some e \<longrightarrow> quake_id e = k)"

text \<open>
  A feature of the raw feed that has its properties, its geometry and the coordinate
  array: the parts \<open>parseEarthquakeData\<close> reads through.
\<close>

definition hasStructure :: "RawFeature \<Rightarrow> bool" where
  "hasStructure f \<longleftrightarrow>
     (\<exists>g cs p. geometry f = Some g \<and> coordinates g = Some cs \<and> properties f = Some p)"

section \<open>Evaluating the double arithmetic\<close>

text \<open>
  Within a binade the rounding is to a multiple of the unit in the last place; this
  evaluates \<open>fl\<close> at a given number, once its binade is known.
\<close>

lemma pow2_powr: "pow2 e = 2 powr of_int e"
  by (simp add: pow2_def powr_int)

lemma floor_log2:
  assumes "pow2 k \<le> x" "x < pow2 (k + 1)"
  shows "\<lfloor>log 2 x\<rfloor> = k"
proof -
  have "0 < pow2 k" by (simp add: pow2_def)
  with assms(1) have pos: "0 < x" by simp
  have "of_int k \<le> log 2 x"
    using assms(1) pos by (simp add: pow2_powr le_log_iff)
  moreover have "log 2 x < of_int k + 1"
    using assms(2) pos by (simp add: pow2_powr log_less_iff)
  ultimately show ?thesis by (simp add: floor_eq_iff)
qed

lemma fl_binade:
  assumes "pow2 k \<le> \<bar>x\<bar>" "\<bar>x\<bar> < pow2 (k + 1)" "- 1022 \<le> k"
  shows "fl x = of_int (roundTiesToEven (x / pow2 (k - 52))) * pow2 (k - 52)"
proof -
  have "\<lfloor>log 2 \<bar>x\<bar>\<rfloor> = k" using assms(1,2) by (rule floor_log2)
  then have b: "binade x = k" using assms(3) by (simp add: binade_def)
  have "0 < pow2 k" by (simp add: pow2_def)
  with assms(1) have "x \<noteq> 0" by auto
  with b show ?thesis by (simp add: fl_def)
qed

lemma fl_0_1: "fl 0.1 = 7205759403792794 / 2 ^ 56"
  using fl_binade [of "- 4" "0.1"] by (simp add: pow2_def roundTiesToEven_def)

lemma fl_5_05: "fl 5.05 = 5685794529555251 / 2 ^ 50"
  using fl_binade [of 2 "5.05"] by (simp add: pow2_def roundTiesToEven_def)

lemma fl_5_1: "fl 5.1 = 5742089524897382 / 2 ^ 50"
  using fl_binade [of 2 "5.1"] by (simp add: pow2_def roundTiesToEven_def)

lemma fl_5_2: "fl 5.2 = 5854679515581645 / 2 ^ 50"
  using fl_binade [of 2 "5.2"] by (simp add: pow2_def roundTiesToEven_def)

lemma fl_0_051: "fl 0.051 = 7349874591868649 / 2 ^ 57"
  using fl_binade [of "- 5" "0.051"] by (simp add: pow2_def roundTiesToEven_def)

lemma fl_0_151: "fl 0.151 = 5440348349863559 / 2 ^ 55"
  using fl_binade [of "- 3" "0.151"] by (simp add: pow2_def roundTiesToEven_def)

lemma diff_5_05: "fl (5 - fl 5.05) = - (7205759403792768 / 2 ^ 57)"
  unfolding fl_5_05
  using fl_binade [of "- 5" "5 - 5685794529555251 / 2 ^ 50"]
  by (simp add: pow2_def roundTiesToEven_def)

lemma diff_5_1: "fl (5 - fl 5.1) = - (7205759403792768 / 2 ^ 56)"
  unfolding fl_5_1
  using fl_binade [of "- 4" "5 - 5742089524897382 / 2 ^ 50"]
  by (simp add: pow2_def roundTiesToEven_def)

lemma diff_5_2: "fl (5 - fl 5.2) = - (7205759403792800 / 2 ^ 55)"
  unfolding fl_5_2
  using fl_binade [of "- 3" "5 - 5854679515581645 / 2 ^ 50"]
  by (simp add: pow2_def roundTiesToEven_def)

lemma diff_0_151: "fl (fl 0.051 - fl 0.151) = - (7205759403792794 / 2 ^ 56)"
  unfolding fl_0_051 fl_0_151
  using fl_binade [of "- 4" "7349874591868649 / 2 ^ 57 - 5440348349863559 / 2 ^ 55"]
  by (simp add: pow2_def roundTiesToEven_def)

lemma threshold_cases:
  "\<bar>fl (5 - fl 5.05)\<bar> < fl 0.1"
  "\<bar>fl (5 - fl 5.1)\<bar> < fl 0.1"
  "\<not> \<bar>fl (5 - fl 5.2)\<bar> < fl 0.1"
  "\<not> \<bar>fl (fl 0.051 - fl 0.151)\<bar> < fl 0.1"
  unfolding diff_5_05 diff_5_1 diff_5_2 diff_0_151 fl_0_1
  by simp_all

lemma exact_0_151: "\<bar>fl 0.051 - fl 0.151\<bar> < (0.1 :: real)"
  unfolding fl_0_051 fl_0_151 by simp

section \<open>Properties of the risk scoring engine\<close>

lemma isLocationNearRegion_same:
  "0 \<le> radius \<Longrightarrow> isLocationNearRegion lat lon lat lon radius"
  by (simp add: isLocationNearRegion_def atan2_def deg2rad_def)

lemma locationImpact_Tokyo: "calculateLocationImpact 35.6762 139.6503 = 90"
  by (simp add: calculateLocationImpact_def isLocationNearRegion_same)

lemma generate_miss_score:
  assumes "financialImpactCache s (quake_id e) = None"
  shows "marketImpactScore (fst (generateFinancialImpactData h now s e)) =
         min 100 (js_round (calculateMagnitudeImpact (magnitude e) * 0.5 +
                            calculateDepthImpact (depth e) * 0.2 +
                            calculateLocationImpact (latitude e) (longitude e) * 0.3))"
  using assms by (simp add: generateFinancialImpactData_def Let_def split: prod.splits)

lemma generate_miss_level:
  assumes "financialImpactCache s (quake_id e) = None"
  shows "riskLevel (fst (generateFinancialImpactData h now s e)) =
         riskLevelOf (marketImpactScore (fst (generateFinancialImpactData h now s e)))"
  using assms by (simp add: generateFinancialImpactData_def Let_def split: prod.splits)

lemma js_round_mono: "x \<le> y \<Longrightarrow> js_round x \<le> js_round y"
  by (simp add: js_round_def floor_mono)

lemma riskLevelOf_mono: "a \<le> b \<Longrightarrow> riskRank (riskLevelOf a) \<le> riskRank (riskLevelOf b)"
  by (auto simp: riskLevelOf_def)

lemma magnitudeImpact_mono:
  "m1 \<le> m2 \<Longrightarrow> calculateMagnitudeImpact m1 \<le> calculateMagnitudeImpact m2"
  by (auto simp: calculateMagnitudeImpact_def min_def)

text \<open>
  C4, as the code computes it. An earthquake of magnitude 7.2 at depth 8 km at the
  coordinates of Tokyo, scored for the first time, has magnitude impact 73 (not 85.5),
  depth impact 84 and location impact 90; its market impact score is
  \<open>round (0.5 * 73 + 0.2 * 84 + 0.3 * 90) = round 80.3 = 80\<close> and its risk level is HIGH.
\<close>

theorem tokyo_bay_score:
  assumes "financialImpactCache s (quake_id e) = None"
    and "magnitude e = 7.2" and "depth e = 8"
    and "latitude e = 35.6762" and "longitude e = 139.6503"
  shows "calculateMagnitudeImpact (magnitude e) = 73
       \<and> calculateDepthImpact (depth e) = 84
       \<and> calculateLocationImpact (latitude e) (longitude e) = 90
       \<and> marketImpactScore (fst (generateFinancialImpactData h now s e)) = 80
       \<and> riskLevel (fst (generateFinancialImpactData h now s e)) = HIGH"
proof -
  have m: "calculateMagnitudeImpact (magnitude e) = 73"
    unfolding assms(2) by (simp add: calculateMagnitudeImpact_def)
  have d: "calculateDepthImpact (depth e) = 84"
    unfolding assms(3) by (simp add: calculateDepthImpact_def)
  have l: "calculateLocationImpact (latitude e) (longitude e) = 90"
    unfolding assms(4) assms(5) by (rule locationImpact_Tokyo)
  have sc: "marketImpactScore (fst (generateFinancialImpactData h now s e)) = 80"
    by (simp add: generate_miss_score [OF assms(1)] m d l js_round_def)
  have "riskLevel (fst (generateFinancialImpactData h now s e)) = HIGH"
    by (simp add: generate_miss_level [OF assms(1)] sc riskLevelOf_def)
  with m d l sc show ?thesis by simp
qed

theorem tokyo_bay_score_witness:
  "marketImpactScore (fst (generateFinancialImpactData
      \<lparr> random = (\<lambda>_. 0), numberToString = (\<lambda>_. []) \<rparr> 0
      \<lparr> financialImpactCache = Map.empty, randomDraws = 0 \<rparr>
      \<lparr> place = ''Tokyo Bay'', magnitude = 7.2, depth = 8, latitude = 35.6762,
        longitude = 139.6503, time = 0, flareNetworkId = None, verified = False,
        source = ''USGS'', url = None, tsunami = False,
        quake_id = ''eq_tokyo'', createdAt = 0, flareVerified = False \<rparr>)) = 80"
  using tokyo_bay_score [of "\<lparr> financialImpactCache = Map.empty, randomDraws = 0 \<rparr>"
      "\<lparr> place = ''Tokyo Bay'', magnitude = 7.2, depth = 8, latitude = 35.6762,
        longitude = 139.6503, time = 0, flareNetworkId = None, verified = False,
        source = ''USGS'', url = None, tsunami = False,
        quake_id = ''eq_tokyo'', createdAt = 0, flareVerified = False \<rparr>"
      "\<lparr> random = (\<lambda>_. 0), numberToString = (\<lambda>_. []) \<rparr>" 0]
  by simp

text \<open>
  C4 as the specification words it (magnitude impact about 85.5, score 87, level
  CRITICAL) does not hold for the Tokyo Bay event.
\<close>

theorem tokyo_bay_counterexample:
  "calculateMagnitudeImpact 7.2 \<noteq> 85.5
   \<and> marketImpactScore (fst (generateFinancialImpactData
      \<lparr> random = (\<lambda>_. 0), numberToString = (\<lambda>_. []) \<rparr> 0
      \<lparr> financialImpactCache = Map.empty, randomDraws = 0 \<rparr>
      \<lparr> place = ''Tokyo Bay'', magnitude = 7.2, depth = 8, latitude = 35.6762,
        longitude = 139.6503, time = 0, flareNetworkId = None, verified = False,
        source = ''USGS'', url = None, tsunami = False,
        quake_id = ''eq_tokyo'', createdAt = 0, flareVerified = False \<rparr>)) \<noteq> 87
   \<and> riskLevel (fst (generateFinancialImpactData
      \<lparr> random = (\<lambda>_. 0), numberToString = (\<lambda>_. []) \<rparr> 0
      \<lparr> financialImpactCache = Map.empty, randomDraws = 0 \<rparr>
      \<lparr> place = ''Tokyo Bay'', magnitude = 7.2, depth = 8, latitude = 35.6762,
        longitude = 139.6503, time = 0, flareNetworkId = None, verified = False,
        source = ''USGS'', url = None, tsunami = False,
        quake_id = ''eq_tokyo'', createdAt = 0, flareVerified = False \<rparr>)) \<noteq> CRITICAL"
proof -
  have "calculateMagnitudeImpact 7.2 = 73"
    by (simp add: calculateMagnitudeImpact_def)
  then show ?thesis
    by (simp add: generate_miss_score generate_miss_level calculateDepthImpact_def
        calculateLocationImpact_def isLocationNearRegion_same js_round_def riskLevelOf_def)
qed

text \<open>
  C9. The magnitude impact is non-decreasing in the magnitude; and of two earthquakes
  with the same depth and coordinates, each scored for the first time, the one of the
  larger magnitude has no smaller market impact score and no lower risk level.
\<close>

theorem risk_monotone_in_magnitude:
  assumes "magnitude e1 \<le> magnitude e2"
    and "depth e1 = depth e2"
    and "latitude e1 = latitude e2" and "longitude e1 = longitude e2"
    and "financialImpactCache s1 (quake_id e1) = None"
    and "financialImpactCache s2 (quake_id e2) = None"
  shows "calculateMagnitudeImpact (magnitude e1) \<le> calculateMagnitudeImpact (magnitude e2)
       \<and> marketImpactScore (fst (generateFinancialImpactData h1 now1 s1 e1))
           \<le> marketImpactScore (fst (generateFinancialImpactData h2 now2 s2 e2))
       \<and> riskRank (riskLevel (fst (generateFinancialImpactData h1 now1 s1 e1)))
           \<le> riskRank (riskLevel (fst (generateFinancialImpactData h2 now2 s2 e2)))"
proof -
  have m: "calculateMagnitudeImpact (magnitude e1) \<le> calculateMagnitudeImpact (magnitude e2)"
    by (rule magnitudeImpact_mono [OF assms(1)])
  have "calculateMagnitudeImpact (magnitude e1) * 0.5 + calculateDepthImpact (depth e1) * 0.2
          + calculateLocationImpact (latitude e1) (longitude e1) * 0.3
        \<le> calculateMagnitudeImpact (magnitude e2) * 0.5 + calculateDepthImpact (depth e2) * 0.2
          + calculateLocationImpact (latitude e2) (longitude e2) * 0.3"
    using m assms(2-4) by simp
  then have sc: "marketImpactScore (fst (generateFinancialImpactData h1 now1 s1 e1))
           \<le> marketImpactScore (fst (generateFinancialImpactData h2 now2 s2 e2))"
    unfolding generate_miss_score [OF assms(5)] generate_miss_score [OF assms(6)]
    by (intro min.mono order_refl js_round_mono)
  have "riskRank (riskLevel (fst (generateFinancialImpactData h1 now1 s1 e1)))
           \<le> riskRank (riskLevel (fst (generateFinancialImpactData h2 now2 s2 e2)))"
    unfolding generate_miss_level [OF assms(5)] generate_miss_level [OF assms(6)]
    by (rule riskLevelOf_mono [OF sc])
  with m sc show ?thesis by simp
qed

theorem risk_monotone_in_magnitude_witness:
  "riskRank (riskLevel (fst (generateFinancialImpactData
      \<lparr> random = (\<lambda>_. 0), numberToString = (\<lambda>_. []) \<rparr> 0
      \<lparr> financialImpactCache = Map.empty, randomDraws = 0 \<rparr>
      \<lparr> place = ''Tokyo Bay'', magnitude = 4.5, depth = 8, latitude = 35.6762,
        longitude = 139.6503, time = 0, flareNetworkId = None, verified = False,
        source = ''USGS'', url = None, tsunami = False,
        quake_id = ''eq_a'', createdAt = 0, flareVerified = False \<rparr>)))
   \<le> riskRank (riskLevel (fst (generateFinancialImpactData
      \<lparr> random = (\<lambda>_. 0), numberToString = (\<lambda>_. []) \<rparr> 0
      \<lparr> financialImpactCache = Map.empty, randomDraws = 0 \<rparr>
      \<lparr> place = ''Tokyo Bay'', magnitude = 7.2, depth = 8, latitude = 35.6762,
        longitude = 139.6503, time = 0, flareNetworkId = None, verified = False,
        source = ''USGS'', url = None, tsunami = False,
        quake_id = ''eq_b'', createdAt = 0, flareVerified = False \<rparr>)))"
  using risk_monotone_in_magnitude
     [of "\<lparr> place = ''Tokyo Bay'', magnitude = 4.5, depth = 8, latitude = 35.6762,
        longitude = 139.6503, time = 0, flareNetworkId = None, verified = False,
        source = ''USGS'', url = None, tsunami = False,
        quake_id = ''eq_a'', createdAt = 0, flareVerified = False \<rparr>"
      "\<lparr> place = ''Tokyo Bay'', magnitude = 7.2, depth = 8, latitude = 35.6762,
        longitude = 139.6503, time = 0, flareNetworkId = None, verified = False,
        source = ''USGS'', url = None, tsunami = False,
        quake_id = ''eq_b'', createdAt = 0, flareVerified = False \<rparr>"
      "\<lparr> financialImpactCache = Map.empty, randomDraws = 0 \<rparr>"
      "\<lparr> financialImpactCache = Map.empty, randomDraws = 0 \<rparr>"
      "\<lparr> random = (\<lambda>_. 0), numberToString = (\<lambda>_. []) \<rparr>" 0
      "\<lparr> random = (\<lambda>_. 0), numberToString = (\<lambda>_. []) \<rparr>" 0]
  by simp







lemma createEarthquake_keyed:
  "storeKeyed st \<Longrightarrow> storeKeyed (snd (createEarthquake newId now st c))"
  by (simp add: storeKeyed_def createEarthquake_def getEarthquake_def Let_def update_conv')

lemma processQuake_keyed:
  "storeKeyed st \<Longrightarrow> storeKeyed (snd (processQuake pf now newId st c))"
  by (auto simp: storeKeyed_def processQuake_def createEarthquake_def createAlert_def
      verifyEarthquakeData_def updateEarthquake_def getEarthquake_def Let_def update_conv'
      split: if_splits)

section \<open>Properties of the bulk query\<close>

lemma getEarthquakes_custom_set:
  "set (getEarthquakes pf now st
          \<lparr> timeRange = ''custom'', filter_magnitude = ''all'', region = ''global'' \<rparr>)
   = {e \<in> snd ` set (earthquakes st). now - time e \<le> 86400000}"
  by (auto simp: getEarthquakes_def Let_def)

lemma mapImpact_fst: "map fst (fst (mapImpact h now s qs)) = qs"
proof (induction qs arbitrary: s)
  case Nil
  show ?case by simp
next
  case (Cons q qs)
  obtain d s' where g: "generateFinancialImpactData h now s q = (d, s')"
    by (cases "generateFinancialImpactData h now s q")
  obtain r s'' where m: "mapImpact h now s' qs = (r, s'')"
    by (cases "mapImpact h now s' qs")
  from Cons.IH [of s'] m have "map fst r = qs" by simp
  with g m show ?case by simp
qed

lemma bulk_quakes:
  "map fst (fst (getEarthquakesWithFinancialImpact pf h now s st startTime endTime))
    = filter (\<lambda>quake. time quake \<ge> startTime \<and> time quake \<le> endTime)
        (getEarthquakes pf now st
           \<lparr> timeRange = ''custom'', filter_magnitude = ''all'', region = ''global'' \<rparr>)"
  by (simp add: getEarthquakesWithFinancialImpact_def mapImpact_fst)

lemma bulk_set:
  "fst ` set (fst (getEarthquakesWithFinancialImpact pf h now s st startTime endTime))
     = {e \<in> snd ` set (earthquakes st).
          now - time e \<le> 24 * 60 * 60 * 1000 \<and> startTime \<le> time e \<and> time e \<le> endTime}"
proof -
  have "fst ` set (fst (getEarthquakesWithFinancialImpact pf h now s st startTime endTime))
      = set (map fst (fst (getEarthquakesWithFinancialImpact pf h now s st startTime endTime)))"
    by simp
  also have "\<dots> = {e \<in> snd ` set (earthquakes st).
          now - time e \<le> 24 * 60 * 60 * 1000 \<and> startTime \<le> time e \<and> time e \<le> endTime}"
    unfolding bulk_quakes by (auto simp: getEarthquakes_custom_set)
  finally show ?thesis .
qed

text \<open>
  C10. Whatever the requested range, the earthquakes that the bulk query returns are
  exactly the stored ones that are at most 24 hours old at the call and lie in the
  range; a stored earthquake older than 24 hours is never returned, although it may
  lie in the range.
\<close>

theorem bulk_only_last_24h:
  "fst ` set (fst (getEarthquakesWithFinancialImpact pf h now s st startTime endTime))
     = {e \<in> snd ` set (earthquakes st).
          now - time e \<le> 24 * 60 * 60 * 1000 \<and> startTime \<le> time e \<and> time e \<le> endTime}
   \<and> (\<forall>e \<in> snd ` set (earthquakes st).
          24 * 60 * 60 * 1000 < now - time e \<longrightarrow>
          e \<notin> fst ` set (fst (getEarthquakesWithFinancialImpact pf h now s st startTime endTime)))"
  unfolding bulk_set by auto

theorem bulk_only_last_24h_witness:
  "\<lparr> place = ''X'', magnitude = 6, depth = 10, latitude = 0, longitude = 0,
     time = 100000000, flareNetworkId = None, verified = False,
     source = ''USGS'', url = None, tsunami = False,
     quake_id = ''eq_old'', createdAt = 100000000, flareVerified = False \<rparr>
   \<notin> fst ` set (fst (getEarthquakesWithFinancialImpact (\<lambda>_. None)
      \<lparr> random = (\<lambda>_. 0), numberToString = (\<lambda>_. []) \<rparr> 200000000
      \<lparr> financialImpactCache = Map.empty, randomDraws = 0 \<rparr>
      \<lparr> earthquakes =
          [(''eq_old'',
            \<lparr> place = ''X'', magnitude = 6, depth = 10, latitude = 0, longitude = 0,
              time = 100000000, flareNetworkId = None, verified = False,
              source = ''USGS'', url = None, tsunami = False,
              quake_id = ''eq_old'', createdAt = 100000000, flareVerified = False \<rparr>)],
        alerts = [], alertIdCounter = 1 \<rparr>
      0 200000000))"
proof -
  have old: "(24 * 60 * 60 * 1000 :: int) < 200000000 - 100000000"
    by simp
  from bulk_only_last_24h
     [where pf = "\<lambda>_. None" and h = "\<lparr> random = (\<lambda>_. 0), numberToString = (\<lambda>_. []) \<rparr>"
        and now = 200000000 and s = "\<lparr> financialImpactCache = Map.empty, randomDraws = 0 \<rparr>"
        and st = "\<lparr> earthquakes =
          [(''eq_old'',
            \<lparr> place = ''X'', magnitude = 6, depth = 10, latitude = 0, longitude = 0,
              time = 100000000, flareNetworkId = None, verified = False,
              source = ''USGS'', url = None, tsunami = False,
              quake_id = ''eq_old'', createdAt = 100000000, flareVerified = False \<rparr>)],
        alerts = [], alertIdCounter = 1 \<rparr>"
        and startTime = 0 and endTime = 200000000, THEN conjunct2]
  show ?thesis using old by simp
qed

section \<open>Properties of ingestion and of the alert classifier\<close>

lemma getEarthquakes_24h_set:
  "set (getEarthquakes pf now st \<lparr> timeRange = ''24h'', filter_magnitude = ''all'', region = ''global'' \<rparr>)
   = {e \<in> snd ` set (earthquakes st). now - time e \<le> 86400000}"
  by (auto simp: getEarthquakes_def Let_def)

lemma exists_iff_duplicateInWindow:
  "list_ex (\<lambda>existing. sameEvent existing c)
     (getEarthquakes pf now st \<lparr> timeRange = ''24h'', filter_magnitude = ''all'', region = ''global'' \<rparr>)
   \<longleftrightarrow> duplicateInWindow now st c"
  unfolding list_ex_iff getEarthquakes_24h_set duplicateInWindow_def sameEvent_def fsub_def
  by auto

lemma processQuake_dup:
  "duplicateInWindow now st c \<Longrightarrow> processQuake pf now newId st c = (None, st)"
  by (simp add: processQuake_def exists_iff_duplicateInWindow)

lemma processQuake_new_fst:
  "\<not> duplicateInWindow now st c \<Longrightarrow>
     fst (processQuake pf now newId st c) = Some (fst (createEarthquake newId now st c))"
  by (simp add: processQuake_def exists_iff_duplicateInWindow Let_def split: prod.splits)

lemma processQuake_new_stored:
  "\<not> duplicateInWindow now st c \<Longrightarrow>
     getEarthquake (snd (processQuake pf now newId st c)) newId
       = Some ((fst (createEarthquake newId now st c))\<lparr> flareVerified := (magnitude c \<ge> 5.0) \<rparr>)"
  by (simp add: processQuake_def exists_iff_duplicateInWindow createEarthquake_def Let_def
      createAlert_def verifyEarthquakeData_def getEarthquake_def updateEarthquake_def update_conv')

lemma createEarthquake_data:
  "InsertEarthquake.truncate (fst (createEarthquake newId now st c)) = c
   \<and> quake_id (fst (createEarthquake newId now st c)) = newId"
  by (simp add: createEarthquake_def Let_def InsertEarthquake.truncate_def)

lemma processQuake_alerts:
  "\<not> duplicateInWindow now st c \<Longrightarrow>
   alerts (snd (processQuake pf now newId st c)) =
     (if magnitude c \<ge> 4.0 then
        AList.update (alertIdCounter st)
           \<lparr> message = (if magnitude c \<ge> 6.0 then ''Major Earthquake Warning''
                                               else ''Moderate Earthquake Alert''),
             severity = (if magnitude c \<ge> 6.0 then ''high'' else ''medium''),
             alert_magnitude = magnitude c, location = place c, earthquakeId = newId,
             timestamp = now, active = True, alert_id = alertIdCounter st \<rparr> (alerts st)
      else alerts st)"
  by (simp add: processQuake_def exists_iff_duplicateInWindow createEarthquake_def Let_def
      createAlert_def verifyEarthquakeData_def getEarthquake_def updateEarthquake_def update_conv')

lemma update_fresh: "k \<notin> fst ` set al \<Longrightarrow> AList.update k v al = al @ [(k, v)]"
  by (induction al) auto

lemma processLoop_shift:
  "processLoop pf clock ids (Suc k) st cs = processLoop pf (\<lambda>i. clock (Suc i)) (\<lambda>i. ids (Suc i)) k st cs"
  by (induction cs arbitrary: k st) (simp_all split: prod.splits)

lemma process_single:
  "processNewEarthquakes pf clock ids st [c] =
     (case processQuake pf (clock 0) (ids 0) st c of
        (None, st') \<Rightarrow> ([], st') | (Some e, st') \<Rightarrow> ([e], st'))"
  by (simp add: processNewEarthquakes_def split: prod.splits option.splits)

lemma process_cons:
  "processNewEarthquakes pf clock ids st (c # cs) =
     (case processNewEarthquakes pf clock ids st [c] of
        (r, st') \<Rightarrow>
          (case processNewEarthquakes pf (\<lambda>i. clock (Suc i)) (\<lambda>i. ids (Suc i)) st' cs of
             (rs, st'') \<Rightarrow> (r @ rs, st'')))"
  by (simp add: processNewEarthquakes_def processLoop_shift split: prod.splits)

lemma single_dup:
  "duplicateInWindow (clock 0) st c \<Longrightarrow> processNewEarthquakes pf clock ids st [c] = ([], st)"
  by (simp add: process_single processQuake_dup)

lemma single_new:
  assumes "\<not> duplicateInWindow (clock 0) st c"
  shows "processNewEarthquakes pf clock ids st [c]
     = ([fst (createEarthquake (ids 0) (clock 0) st c)], snd (processQuake pf (clock 0) (ids 0) st c))"
proof -
  obtain r st' where p: "processQuake pf (clock 0) (ids 0) st c = (r, st')"
    by (cases "processQuake pf (clock 0) (ids 0) st c")
  with processQuake_new_fst [OF assms, of pf "ids 0"]
  have "r = Some (fst (createEarthquake (ids 0) (clock 0) st c))" by simp
  with p show ?thesis by (simp add: process_single)
qed

lemma scenario_B:
  assumes "(k, a) \<in> set (earthquakes st)" and "place a = ''X''" and "magnitude a = 5.0"
    and "clock 0 - time a \<le> 24 * 60 * 60 * 1000"
    and "place b = ''X''" and "magnitude b = fl 5.05" and "time b = time a + 2 * 60 * 1000"
  shows "duplicateInWindow (clock 0) st b"
proof -
  have "a \<in> snd ` set (earthquakes st)"
    using assms(1) by (metis imageI snd_conv)
  moreover have "\<bar>fl (magnitude a - magnitude b)\<bar> < fl 0.1"
    unfolding assms(3) assms(6) using threshold_cases(1) by simp
  ultimately show ?thesis
    unfolding duplicateInWindow_def using assms(2,4,5,7) by (intro bexI [of _ a]) simp_all
qed

lemma scenario_B':
  assumes "(k, a) \<in> set (earthquakes st)" and "place a = ''X''" and "magnitude a = 5.0"
    and "clock 0 - time a \<le> 24 * 60 * 60 * 1000"
    and "place b = ''X''" and "magnitude b = fl 5.1" and "time b = time a"
  shows "duplicateInWindow (clock 0) st b"
proof -
  have "a \<in> snd ` set (earthquakes st)"
    using assms(1) by (metis imageI snd_conv)
  moreover have "\<bar>fl (magnitude a - magnitude b)\<bar> < fl 0.1"
    unfolding assms(3) assms(6) using threshold_cases(2) by simp
  ultimately show ?thesis
    unfolding duplicateInWindow_def using assms(2,4,5,7) by (intro bexI [of _ a]) simp_all
qed

lemma scenario_C:
  assumes "\<forall>e \<in> snd ` set (earthquakes st). e = a \<or> place e \<noteq> ''X''"
    and "magnitude a = 5.0" and "place c = ''X''" and "magnitude c = fl 5.2"
  shows "\<not> duplicateInWindow now st c"
proof
  assume "duplicateInWindow now st c"
  then obtain e where e: "e \<in> snd ` set (earthquakes st)" "place e = place c"
      "\<bar>fl (magnitude e - magnitude c)\<bar> < fl 0.1"
    unfolding duplicateInWindow_def by blast
  from assms(1) e(1) have "e = a \<or> place e \<noteq> ''X''" by blast
  with e(2) assms(3) have "e = a" by simp
  with e(3) have "\<bar>fl (magnitude a - magnitude c)\<bar> < fl 0.1" by simp
  then show False
    unfolding assms(2) assms(4) using threshold_cases(3) by simp
qed

text \<open>
  C2, as the code behaves. A batch of one candidate \<open>c\<close> admits nothing exactly when
  some stored event of the current 24-hour window has the place of \<open>c\<close>, a time less
  than five minutes away, and a magnitude whose difference from that of \<open>c\<close>, rounded to
  a double, is in absolute value below the double nearest to 0.1. A duplicate leaves
  the whole store as it was. A candidate that is not a duplicate is returned, with the
  data of \<open>c\<close> and a new identity, and is in the store under that identity. A longer
  batch handles its first candidate in this way and the rest against the store that
  results. In particular, with \<open>a\<close> (place X, magnitude 5.0) stored and in the window,
  the candidate \<open>b\<close> (place X, magnitude 5.05, two minutes later) is rejected, and so is
  the candidate \<open>b'\<close> (place X, magnitude 5.1, same time), whose difference rounds to
  0.09999999999999964; with \<open>a\<close> the only stored event at place X the candidate \<open>c'\<close>
  (place X, magnitude 5.2, same time) is admitted.
\<close>

theorem ingestion_dedup:
  "(fst (processNewEarthquakes pf clock ids st [c]) = [] \<longleftrightarrow> duplicateInWindow (clock 0) st c)
   \<and> (duplicateInWindow (clock 0) st c \<longrightarrow> processNewEarthquakes pf clock ids st [c] = ([], st))
   \<and> (\<not> duplicateInWindow (clock 0) st c \<longrightarrow>
        (\<exists>e. fst (processNewEarthquakes pf clock ids st [c]) = [e]
           \<and> InsertEarthquake.truncate e = c \<and> quake_id e = ids 0
           \<and> getEarthquake (snd (processNewEarthquakes pf clock ids st [c])) (ids 0)
               = Some (e\<lparr> flareVerified := (magnitude c \<ge> 5.0) \<rparr>)))
   \<and> processNewEarthquakes pf clock ids st (c # cs) =
        (case processNewEarthquakes pf clock ids st [c] of
           (r, st') \<Rightarrow>
             (case processNewEarthquakes pf (\<lambda>i. clock (Suc i)) (\<lambda>i. ids (Suc i)) st' cs of
                (rs, st'') \<Rightarrow> (r @ rs, st'')))
   \<and> ((k, a) \<in> set (earthquakes st) \<and> place a = ''X'' \<and> magnitude a = 5.0
        \<and> clock 0 - time a \<le> 24 * 60 * 60 * 1000
        \<and> place b = ''X'' \<and> magnitude b = fl 5.05 \<and> time b = time a + 2 * 60 * 1000
        \<longrightarrow> processNewEarthquakes pf clock ids st [b] = ([], st))
   \<and> ((k, a) \<in> set (earthquakes st) \<and> place a = ''X'' \<and> magnitude a = 5.0
        \<and> clock 0 - time a \<le> 24 * 60 * 60 * 1000
        \<and> place b' = ''X'' \<and> magnitude b' = fl 5.1 \<and> time b' = time a
        \<longrightarrow> processNewEarthquakes pf clock ids st [b'] = ([], st))
   \<and> ((k, a) \<in> set (earthquakes st)
        \<and> (\<forall>e \<in> snd ` set (earthquakes st). e = a \<or> place e \<noteq> ''X'')
        \<and> place a = ''X'' \<and> magnitude a = 5.0
        \<and> place c' = ''X'' \<and> magnitude c' = fl 5.2 \<and> time c' = time a
        \<longrightarrow> length (fst (processNewEarthquakes pf clock ids st [c'])) = 1)"
proof (intro conjI impI)
  show "fst (processNewEarthquakes pf clock ids st [c]) = [] \<longleftrightarrow> duplicateInWindow (clock 0) st c"
    by (cases "duplicateInWindow (clock 0) st c") (simp_all add: single_dup single_new)
  show "processNewEarthquakes pf clock ids st [c] = ([], st)" if "duplicateInWindow (clock 0) st c"
    using that by (rule single_dup)
  show "\<exists>e. fst (processNewEarthquakes pf clock ids st [c]) = [e]
           \<and> InsertEarthquake.truncate e = c \<and> quake_id e = ids 0
           \<and> getEarthquake (snd (processNewEarthquakes pf clock ids st [c])) (ids 0)
               = Some (e\<lparr> flareVerified := (magnitude c \<ge> 5.0) \<rparr>)"
    if "\<not> duplicateInWindow (clock 0) st c"
    using that
    by (intro exI [of _ "fst (createEarthquake (ids 0) (clock 0) st c)"])
       (simp add: single_new createEarthquake_data processQuake_new_stored)
  show "processNewEarthquakes pf clock ids st (c # cs) =
        (case processNewEarthquakes pf clock ids st [c] of
           (r, st') \<Rightarrow>
             (case processNewEarthquakes pf (\<lambda>i. clock (Suc i)) (\<lambda>i. ids (Suc i)) st' cs of
                (rs, st'') \<Rightarrow> (r @ rs, st'')))"
    by (rule process_cons)
  show "processNewEarthquakes pf clock ids st [b] = ([], st)"
    if "(k, a) \<in> set (earthquakes st) \<and> place a = ''X'' \<and> magnitude a = 5.0
        \<and> clock 0 - time a \<le> 24 * 60 * 60 * 1000
        \<and> place b = ''X'' \<and> magnitude b = fl 5.05 \<and> time b = time a + 2 * 60 * 1000"
    using that by (intro single_dup scenario_B [of k a]) simp_all
  show "processNewEarthquakes pf clock ids st [b'] = ([], st)"
    if "(k, a) \<in> set (earthquakes st) \<and> place a = ''X'' \<and> magnitude a = 5.0
        \<and> clock 0 - time a \<le> 24 * 60 * 60 * 1000
        \<and> place b' = ''X'' \<and> magnitude b' = fl 5.1 \<and> time b' = time a"
    using that by (intro single_dup scenario_B' [of k a]) simp_all
  show "length (fst (processNewEarthquakes pf clock ids st [c'])) = 1"
    if "(k, a) \<in> set (earthquakes st)
        \<and> (\<forall>e \<in> snd ` set (earthquakes st). e = a \<or> place e \<noteq> ''X'')
        \<and> place a = ''X'' \<and> magnitude a = 5.0
        \<and> place c' = ''X'' \<and> magnitude c' = fl 5.2 \<and> time c' = time a"
  proof -
    from that have "\<not> duplicateInWindow (clock 0) st c'"
      by (intro scenario_C [of st a]) simp_all
    then show ?thesis by (simp add: single_new)
  qed
qed

theorem ingestion_dedup_witness:
  "processNewEarthquakes (\<lambda>_. None) (\<lambda>_. 1600000) (\<lambda>_. ''eq_new'')
     \<lparr> earthquakes =
         [(''eq_a'',
           \<lparr> place = ''X'', magnitude = 5.0, depth = 10, latitude = 0, longitude = 0,
             time = 1000000, flareNetworkId = None, verified = False,
             source = ''USGS'', url = None, tsunami = False,
             quake_id = ''eq_a'', createdAt = 1000000, flareVerified = False \<rparr>)],
       alerts = [], alertIdCounter = 1 \<rparr>
     [\<lparr> place = ''X'', magnitude = fl 5.05, depth = 10, latitude = 0, longitude = 0,
        time = 1120000, flareNetworkId = None, verified = False,
        source = ''USGS'', url = None, tsunami = False \<rparr>]
   = ([], \<lparr> earthquakes =
         [(''eq_a'',
           \<lparr> place = ''X'', magnitude = 5.0, depth = 10, latitude = 0, longitude = 0,
             time = 1000000, flareNetworkId = None, verified = False,
             source = ''USGS'', url = None, tsunami = False,
             quake_id = ''eq_a'', createdAt = 1000000, flareVerified = False \<rparr>)],
       alerts = [], alertIdCounter = 1 \<rparr>)
   \<and> processNewEarthquakes (\<lambda>_. None) (\<lambda>_. 1600000) (\<lambda>_. ''eq_new'')
     \<lparr> earthquakes =
         [(''eq_a'',
           \<lparr> place = ''X'', magnitude = 5.0, depth = 10, latitude = 0, longitude = 0,
             time = 1000000, flareNetworkId = None, verified = False,
             source = ''USGS'', url = None, tsunami = False,
             quake_id = ''eq_a'', createdAt = 1000000, flareVerified = False \<rparr>)],
       alerts = [], alertIdCounter = 1 \<rparr>
     [\<lparr> place = ''X'', magnitude = fl 5.1, depth = 10, latitude = 0, longitude = 0,
        time = 1000000, flareNetworkId = None, verified = False,
        source = ''USGS'', url = None, tsunami = False \<rparr>]
   = ([], \<lparr> earthquakes =
         [(''eq_a'',
           \<lparr> place = ''X'', magnitude = 5.0, depth = 10, latitude = 0, longitude = 0,
             time = 1000000, flareNetworkId = None, verified = False,
             source = ''USGS'', url = None, tsunami = False,
             quake_id = ''eq_a'', createdAt = 1000000, flareVerified = False \<rparr>)],
       alerts = [], alertIdCounter = 1 \<rparr>)
   \<and> length (fst (processNewEarthquakes (\<lambda>_. None) (\<lambda>_. 1600000) (\<lambda>_. ''eq_new'')
     \<lparr> earthquakes =
         [(''eq_a'',
           \<lparr> place = ''X'', magnitude = 5.0, depth = 10, latitude = 0, longitude = 0,
             time = 1000000, flareNetworkId = None, verified = False,
             source = ''USGS'', url = None, tsunami = False,
             quake_id = ''eq_a'', createdAt = 1000000, flareVerified = False \<rparr>)],
       alerts = [], alertIdCounter = 1 \<rparr>
     [\<lparr> place = ''X'', magnitude = fl 5.2, depth = 10, latitude = 0, longitude = 0,
        time = 1000000, flareNetworkId = None, verified = False,
        source = ''USGS'', url = None, tsunami = False \<rparr>])) = 1"
  using ingestion_dedup
    [where pf = "\<lambda>_. None" and clock = "\<lambda>_. 1600000" and ids = "\<lambda>_. ''eq_new''"
       and st = "\<lparr> earthquakes =
         [(''eq_a'',
           \<lparr> place = ''X'', magnitude = 5.0, depth = 10, latitude = 0, longitude = 0,
             time = 1000000, flareNetworkId = None, verified = False,
             source = ''USGS'', url = None, tsunami = False,
             quake_id = ''eq_a'', createdAt = 1000000, flareVerified = False \<rparr>)],
       alerts = [], alertIdCounter = 1 \<rparr>"
       and k = "''eq_a''"
       and a = "\<lparr> place = ''X'', magnitude = 5.0, depth = 10, latitude = 0, longitude = 0,
             time = 1000000, flareNetworkId = None, verified = False,
             source = ''USGS'', url = None, tsunami = False,
             quake_id = ''eq_a'', createdAt = 1000000, flareVerified = False \<rparr>"
       and b = "\<lparr> place = ''X'', magnitude = fl 5.05, depth = 10, latitude = 0, longitude = 0,
        time = 1120000, flareNetworkId = None, verified = False,
        source = ''USGS'', url = None, tsunami = False \<rparr>"
       and b' = "\<lparr> place = ''X'', magnitude = fl 5.1, depth = 10, latitude = 0, longitude = 0,
        time = 1000000, flareNetworkId = None, verified = False,
        source = ''USGS'', url = None, tsunami = False \<rparr>"
       and c' = "\<lparr> place = ''X'', magnitude = fl 5.2, depth = 10, latitude = 0, longitude = 0,
        time = 1000000, flareNetworkId = None, verified = False,
        source = ''USGS'', url = None, tsunami = False \<rparr>"
       and c = "\<lparr> place = ''X'', magnitude = fl 5.2, depth = 10, latitude = 0, longitude = 0,
        time = 1000000, flareNetworkId = None, verified = False,
        source = ''USGS'', url = None, tsunami = False \<rparr>" and cs = "[]"]
  by simp

text \<open>
  C2 as worded compares the magnitudes as the numbers they are. With 0.051 stored, the
  candidate 0.151 at the same place and time is less than 0.1 away, so a duplicate in
  the words of the specification, and it is admitted: the difference rounds to the
  double nearest to 0.1, which is not below itself. With 5.0 stored, the candidate
  reported as 5.1, exactly 0.1 away in decimals, is rejected.
\<close>

theorem dedup_threshold_counterexample:
  "specDuplicate 1600000
     \<lparr> earthquakes =
         [(''eq_a'',
           \<lparr> place = ''X'', magnitude = fl 0.051, depth = 10, latitude = 0, longitude = 0,
             time = 1000000, flareNetworkId = None, verified = False,
             source = ''USGS'', url = None, tsunami = False,
             quake_id = ''eq_a'', createdAt = 1000000, flareVerified = False \<rparr>)],
       alerts = [], alertIdCounter = 1 \<rparr>
     \<lparr> place = ''X'', magnitude = fl 0.151, depth = 10, latitude = 0, longitude = 0,
        time = 1000000, flareNetworkId = None, verified = False,
        source = ''USGS'', url = None, tsunami = False \<rparr>
   \<and> length (fst (processNewEarthquakes (\<lambda>_. None) (\<lambda>_. 1600000) (\<lambda>_. ''eq_new'')
     \<lparr> earthquakes =
         [(''eq_a'',
           \<lparr> place = ''X'', magnitude = fl 0.051, depth = 10, latitude = 0, longitude = 0,
             time = 1000000, flareNetworkId = None, verified = False,
             source = ''USGS'', url = None, tsunami = False,
             quake_id = ''eq_a'', createdAt = 1000000, flareVerified = False \<rparr>)],
       alerts = [], alertIdCounter = 1 \<rparr>
     [\<lparr> place = ''X'', magnitude = fl 0.151, depth = 10, latitude = 0, longitude = 0,
        time = 1000000, flareNetworkId = None, verified = False,
        source = ''USGS'', url = None, tsunami = False \<rparr>])) = 1
   \<and> processNewEarthquakes (\<lambda>_. None) (\<lambda>_. 1600000) (\<lambda>_. ''eq_new'')
     \<lparr> earthquakes =
         [(''eq_a'',
           \<lparr> place = ''X'', magnitude = 5.0, depth = 10, latitude = 0, longitude = 0,
             time = 1000000, flareNetworkId = None, verified = False,
             source = ''USGS'', url = None, tsunami = False,
             quake_id = ''eq_a'', createdAt = 1000000, flareVerified = False \<rparr>)],
       alerts = [], alertIdCounter = 1 \<rparr>
     [\<lparr> place = ''X'', magnitude = fl 5.1, depth = 10, latitude = 0, longitude = 0,
        time = 1000000, flareNetworkId = None, verified = False,
        source = ''USGS'', url = None, tsunami = False \<rparr>]
     = ([], \<lparr> earthquakes =
         [(''eq_a'',
           \<lparr> place = ''X'', magnitude = 5.0, depth = 10, latitude = 0, longitude = 0,
             time = 1000000, flareNetworkId = None, verified = False,
             source = ''USGS'', url = None, tsunami = False,
             quake_id = ''eq_a'', createdAt = 1000000, flareVerified = False \<rparr>)],
       alerts = [], alertIdCounter = 1 \<rparr>)
   \<and> \<not> \<bar>5.0 - 5.1\<bar> < (0.1 :: real)"
proof -
  have spec: "specDuplicate 1600000
     \<lparr> earthquakes =
         [(''eq_a'',
           \<lparr> place = ''X'', magnitude = fl 0.051, depth = 10, latitude = 0, longitude = 0,
             time = 1000000, flareNetworkId = None, verified = False,
             source = ''USGS'', url = None, tsunami = False,
             quake_id = ''eq_a'', createdAt = 1000000, flareVerified = False \<rparr>)],
       alerts = [], alertIdCounter = 1 \<rparr>
     \<lparr> place = ''X'', magnitude = fl 0.151, depth = 10, latitude = 0, longitude = 0,
        time = 1000000, flareNetworkId = None, verified = False,
        source = ''USGS'', url = None, tsunami = False \<rparr>"
    unfolding specDuplicate_def using exact_0_151 by simp
  have "\<not> duplicateInWindow 1600000
     \<lparr> earthquakes =
         [(''eq_a'',
           \<lparr> place = ''X'', magnitude = fl 0.051, depth = 10, latitude = 0, longitude = 0,
             time = 1000000, flareNetworkId = None, verified = False,
             source = ''USGS'', url = None, tsunami = False,
             quake_id = ''eq_a'', createdAt = 1000000, flareVerified = False \<rparr>)],
       alerts = [], alertIdCounter = 1 \<rparr>
     \<lparr> place = ''X'', magnitude = fl 0.151, depth = 10, latitude = 0, longitude = 0,
        time = 1000000, flareNetworkId = None, verified = False,
        source = ''USGS'', url = None, tsunami = False \<rparr>"
    unfolding duplicateInWindow_def using threshold_cases(4) by simp
  then have admitted: "length (fst (processNewEarthquakes (\<lambda>_. None) (\<lambda>_. 1600000) (\<lambda>_. ''eq_new'')
     \<lparr> earthquakes =
         [(''eq_a'',
           \<lparr> place = ''X'', magnitude = fl 0.051, depth = 10, latitude = 0, longitude = 0,
             time = 1000000, flareNetworkId = None, verified = False,
             source = ''USGS'', url = None, tsunami = False,
             quake_id = ''eq_a'', createdAt = 1000000, flareVerified = False \<rparr>)],
       alerts = [], alertIdCounter = 1 \<rparr>
     [\<lparr> place = ''X'', magnitude = fl 0.151, depth = 10, latitude = 0, longitude = 0,
        time = 1000000, flareNetworkId = None, verified = False,
        source = ''USGS'', url = None, tsunami = False \<rparr>])) = 1"
    using single_new [where clock = "\<lambda>_. 1600000" and pf = "\<lambda>_. None" and ids = "\<lambda>_. ''eq_new''"
        and st = "\<lparr> earthquakes =
         [(''eq_a'',
           \<lparr> place = ''X'', magnitude = fl 0.051, depth = 10, latitude = 0, longitude = 0,
             time = 1000000, flareNetworkId = None, verified = False,
             source = ''USGS'', url = None, tsunami = False,
             quake_id = ''eq_a'', createdAt = 1000000, flareVerified = False \<rparr>)],
       alerts = [], alertIdCounter = 1 \<rparr>"
        and c = "\<lparr> place = ''X'', magnitude = fl 0.151, depth = 10, latitude = 0, longitude = 0,
        time = 1000000, flareNetworkId = None, verified = False,
        source = ''USGS'', url = None, tsunami = False \<rparr>"]
    by simp
  have "duplicateInWindow 1600000
     \<lparr> earthquakes =
         [(''eq_a'',
           \<lparr> place = ''X'', magnitude = 5.0, depth = 10, latitude = 0, longitude = 0,
             time = 1000000, flareNetworkId = None, verified = False,
             source = ''USGS'', url = None, tsunami = False,
             quake_id = ''eq_a'', createdAt = 1000000, flareVerified = False \<rparr>)],
       alerts = [], alertIdCounter = 1 \<rparr>
     \<lparr> place = ''X'', magnitude = fl 5.1, depth = 10, latitude = 0, longitude = 0,
        time = 1000000, flareNetworkId = None, verified = False,
        source = ''USGS'', url = None, tsunami = False \<rparr>"
    unfolding duplicateInWindow_def using threshold_cases(2) by simp
  then have rejected: "processNewEarthquakes (\<lambda>_. None) (\<lambda>_. 1600000) (\<lambda>_. ''eq_new'')
     \<lparr> earthquakes =
         [(''eq_a'',
           \<lparr> place = ''X'', magnitude = 5.0, depth = 10, latitude = 0, longitude = 0,
             time = 1000000, flareNetworkId = None, verified = False,
             source = ''USGS'', url = None, tsunami = False,
             quake_id = ''eq_a'', createdAt = 1000000, flareVerified = False \<rparr>)],
       alerts = [], alertIdCounter = 1 \<rparr>
     [\<lparr> place = ''X'', magnitude = fl 5.1, depth = 10, latitude = 0, longitude = 0,
        time = 1000000, flareNetworkId = None, verified = False,
        source = ''USGS'', url = None, tsunami = False \<rparr>]
     = ([], \<lparr> earthquakes =
         [(''eq_a'',
           \<lparr> place = ''X'', magnitude = 5.0, depth = 10, latitude = 0, longitude = 0,
             time = 1000000, flareNetworkId = None, verified = False,
             source = ''USGS'', url = None, tsunami = False,
             quake_id = ''eq_a'', createdAt = 1000000, flareVerified = False \<rparr>)],
       alerts = [], alertIdCounter = 1 \<rparr>)"
    using single_dup [where clock = "\<lambda>_. 1600000" and pf = "\<lambda>_. None" and ids = "\<lambda>_. ''eq_new''"
        and st = "\<lparr> earthquakes =
         [(''eq_a'',
           \<lparr> place = ''X'', magnitude = 5.0, depth = 10, latitude = 0, longitude = 0,
             time = 1000000, flareNetworkId = None, verified = False,
             source = ''USGS'', url = None, tsunami = False,
             quake_id = ''eq_a'', createdAt = 1000000, flareVerified = False \<rparr>)],
       alerts = [], alertIdCounter = 1 \<rparr>"
        and c = "\<lparr> place = ''X'', magnitude = fl 5.1, depth = 10, latitude = 0, longitude = 0,
        time = 1000000, flareNetworkId = None, verified = False,
        source = ''USGS'', url = None, tsunami = False \<rparr>"]
    by simp
  from spec admitted rejected show ?thesis by simp
qed

lemma alerts_single_new:
  "\<not> duplicateInWindow (clock 0) st c \<Longrightarrow>
   alerts (snd (processNewEarthquakes pf clock ids st [c])) =
     (if magnitude c \<ge> 4.0 then
        AList.update (alertIdCounter st)
           \<lparr> message = (if magnitude c \<ge> 6.0 then ''Major Earthquake Warning''
                                               else ''Moderate Earthquake Alert''),
             severity = (if magnitude c \<ge> 6.0 then ''high'' else ''medium''),
             alert_magnitude = magnitude c, location = place c, earthquakeId = ids 0,
             timestamp = clock 0, active = True, alert_id = alertIdCounter st \<rparr> (alerts st)
      else alerts st)"
  by (simp add: single_new processQuake_alerts)

text \<open>
  C6. For a newly admitted candidate \<open>c\<close>: below magnitude 4.0 the alerts are unchanged;
  from 4.0 and below 6.0 one alert of severity medium with the message
  ``Moderate Earthquake Alert'' is stored; from 6.0 one alert of severity high with the
  message ``Major Earthquake Warning''. The alert carries the magnitude and the place of
  \<open>c\<close>, names the identity of the admitted earthquake, and is active. When the alert
  counter is fresh, the stored alerts are the old ones followed by the new one.
\<close>

theorem alert_classification:
  "\<not> duplicateInWindow (clock 0) st c \<longrightarrow>
     map quake_id (fst (processNewEarthquakes pf clock ids st [c])) = [ids 0]
   \<and> (magnitude c < 4.0 \<longrightarrow>
        alerts (snd (processNewEarthquakes pf clock ids st [c])) = alerts st)
   \<and> (4.0 \<le> magnitude c \<and> magnitude c < 6.0 \<longrightarrow>
        alerts (snd (processNewEarthquakes pf clock ids st [c])) =
          AList.update (alertIdCounter st)
            \<lparr> message = ''Moderate Earthquake Alert'', severity = ''medium'',
              alert_magnitude = magnitude c, location = place c, earthquakeId = ids 0,
              timestamp = clock 0, active = True, alert_id = alertIdCounter st \<rparr> (alerts st))
   \<and> (6.0 \<le> magnitude c \<longrightarrow>
        alerts (snd (processNewEarthquakes pf clock ids st [c])) =
          AList.update (alertIdCounter st)
            \<lparr> message = ''Major Earthquake Warning'', severity = ''high'',
              alert_magnitude = magnitude c, location = place c, earthquakeId = ids 0,
              timestamp = clock 0, active = True, alert_id = alertIdCounter st \<rparr> (alerts st))
   \<and> (4.0 \<le> magnitude c \<and> alertIdCounter st \<notin> fst ` set (alerts st) \<longrightarrow>
        (\<exists>a. alerts (snd (processNewEarthquakes pf clock ids st [c]))
                 = alerts st @ [(alertIdCounter st, a)]))"
proof (intro impI conjI)
  assume new: "\<not> duplicateInWindow (clock 0) st c"
  show "map quake_id (fst (processNewEarthquakes pf clock ids st [c])) = [ids 0]"
    by (simp add: single_new [where clock = clock, OF new] createEarthquake_data)
  show "alerts (snd (processNewEarthquakes pf clock ids st [c])) = alerts st"
    if "magnitude c < 4.0"
    using that by (simp add: alerts_single_new [where clock = clock, OF new])
  show "alerts (snd (processNewEarthquakes pf clock ids st [c])) =
          AList.update (alertIdCounter st)
            \<lparr> message = ''Moderate Earthquake Alert'', severity = ''medium'',
              alert_magnitude = magnitude c, location = place c, earthquakeId = ids 0,
              timestamp = clock 0, active = True, alert_id = alertIdCounter st \<rparr> (alerts st)"
    if "4.0 \<le> magnitude c \<and> magnitude c < 6.0"
    using that by (simp add: alerts_single_new [where clock = clock, OF new])
  show "alerts (snd (processNewEarthquakes pf clock ids st [c])) =
          AList.update (alertIdCounter st)
            \<lparr> message = ''Major Earthquake Warning'', severity = ''high'',
              alert_magnitude = magnitude c, location = place c, earthquakeId = ids 0,
              timestamp = clock 0, active = True, alert_id = alertIdCounter st \<rparr> (alerts st)"
    if "6.0 \<le> magnitude c"
    using that by (simp add: alerts_single_new [where clock = clock, OF new])
  show "\<exists>a. alerts (snd (processNewEarthquakes pf clock ids st [c]))
                 = alerts st @ [(alertIdCounter st, a)]"
    if "4.0 \<le> magnitude c \<and> alertIdCounter st \<notin> fst ` set (alerts st)"
    using that by (simp add: alerts_single_new [where clock = clock, OF new] update_fresh)
qed

theorem alert_classification_witness:
  "alerts (snd (processNewEarthquakes (\<lambda>_. None) (\<lambda>_. 1600000) (\<lambda>_. ''eq_new'')
     \<lparr> earthquakes = [], alerts = [], alertIdCounter = 1 \<rparr>
     [\<lparr> place = ''Y'', magnitude = 6.5, depth = 10, latitude = 0, longitude = 0,
        time = 1000000, flareNetworkId = None, verified = False,
        source = ''USGS'', url = None, tsunami = False \<rparr>]))
   = [(1, \<lparr> message = ''Major Earthquake Warning'', severity = ''high'',
              alert_magnitude = 6.5, location = ''Y'', earthquakeId = ''eq_new'',
              timestamp = 1600000, active = True, alert_id = 1 \<rparr>)]
   \<and> alerts (snd (processNewEarthquakes (\<lambda>_. None) (\<lambda>_. 1600000) (\<lambda>_. ''eq_new'')
     \<lparr> earthquakes = [], alerts = [], alertIdCounter = 1 \<rparr>
     [\<lparr> place = ''Y'', magnitude = 4.5, depth = 10, latitude = 0, longitude = 0,
        time = 1000000, flareNetworkId = None, verified = False,
        source = ''USGS'', url = None, tsunami = False \<rparr>]))
   = [(1, \<lparr> message = ''Moderate Earthquake Alert'', severity = ''medium'',
              alert_magnitude = 4.5, location = ''Y'', earthquakeId = ''eq_new'',
              timestamp = 1600000, active = True, alert_id = 1 \<rparr>)]
   \<and> alerts (snd (processNewEarthquakes (\<lambda>_. None) (\<lambda>_. 1600000) (\<lambda>_. ''eq_new'')
     \<lparr> earthquakes = [], alerts = [], alertIdCounter = 1 \<rparr>
     [\<lparr> place = ''Y'', magnitude = 3.9, depth = 10, latitude = 0, longitude = 0,
        time = 1000000, flareNetworkId = None, verified = False,
        source = ''USGS'', url = None, tsunami = False \<rparr>]))
   = []"
  using alert_classification
    [where pf = "\<lambda>_. None" and clock = "\<lambda>_. 1600000" and ids = "\<lambda>_. ''eq_new''"
       and st = "\<lparr> earthquakes = [], alerts = [], alertIdCounter = 1 \<rparr>"
       and c = "\<lparr> place = ''Y'', magnitude = 6.5, depth = 10, latitude = 0, longitude = 0,
        time = 1000000, flareNetworkId = None, verified = False,
        source = ''USGS'', url = None, tsunami = False \<rparr>"]
    alert_classification
    [where pf = "\<lambda>_. None" and clock = "\<lambda>_. 1600000" and ids = "\<lambda>_. ''eq_new''"
       and st = "\<lparr> earthquakes = [], alerts = [], alertIdCounter = 1 \<rparr>"
       and c = "\<lparr> place = ''Y'', magnitude = 4.5, depth = 10, latitude = 0, longitude = 0,
        time = 1000000, flareNetworkId = None, verified = False,
        source = ''USGS'', url = None, tsunami = False \<rparr>"]
    alert_classification
    [where pf = "\<lambda>_. None" and clock = "\<lambda>_. 1600000" and ids = "\<lambda>_. ''eq_new''"
       and st = "\<lparr> earthquakes = [], alerts = [], alertIdCounter = 1 \<rparr>"
       and c = "\<lparr> place = ''Y'', magnitude = 3.9, depth = 10, latitude = 0, longitude = 0,
        time = 1000000, flareNetworkId = None, verified = False,
        source = ''USGS'', url = None, tsunami = False \<rparr>"]
  by (simp add: duplicateInWindow_def)

section \<open>Properties of the access controller\<close>

lemma validate_keys: "snd (validateApiKey now keys key) = keys"
  by (simp add: validateApiKey_def split: option.splits)

lemma validate_valid_iff:
  "valid (fst (validateApiKey now keys key)) \<longleftrightarrow>
     (\<exists>sub. map_of keys key = Some sub \<and> sub_active sub \<and> now \<le> endDate sub
            \<and> 0 < remainingRequests sub)"
  by (auto simp: validateApiKey_def invalidKey_def split: option.splits)

lemma validate_invalid:
  "\<not> valid (fst (validateApiKey now keys key)) \<Longrightarrow> fst (validateApiKey now keys key) = invalidKey"
  by (auto simp: validateApiKey_def invalidKey_def split: option.splits if_splits)

lemma verify_pass:
  assumes "map_of keys key = Some sub" "sub_active sub" "now \<le> endDate sub"
    "0 < remainingRequests sub" "key \<noteq> []"
  shows "verifyApiKey now keys (Some key) =
     (Next (fst (validateApiKey now keys key)) (remainingRequests sub - 1),
      AList.update key (sub\<lparr> remainingRequests := remainingRequests sub - 1,
                              lastRequestDate := Some now \<rparr>) keys)"
  using assms
  by (simp add: verifyApiKey_def validateApiKey_def recordApiRequest_def Let_def)

lemma verify_exhausted:
  assumes "map_of keys key = Some sub" "remainingRequests sub \<le> 0" "key \<noteq> []"
  shows "verifyApiKey now keys (Some key) = (Respond 401 ''INVALID_API_KEY'', keys)"
  using assms
  by (simp add: verifyApiKey_def validateApiKey_def invalidKey_def)

lemma verify_unknown:
  assumes "map_of keys key = None" "key \<noteq> []"
  shows "verifyApiKey now keys (Some key) = (Respond 401 ''INVALID_API_KEY'', keys)"
  using assms
  by (simp add: verifyApiKey_def validateApiKey_def invalidKey_def)

lemma verify_step_key:
  assumes "map_of keys key = Some s" "0 \<le> remainingRequests s"
  shows "\<exists>s'. map_of (snd (verifyApiKey now keys header)) key = Some s'
            \<and> 0 \<le> remainingRequests s' \<and> remainingRequests s' \<le> remainingRequests s
            \<and> (header = Some key \<longrightarrow>
                 (\<forall>v n. fst (verifyApiKey now keys header) = Next v n \<longrightarrow> n = remainingRequests s'))"
  using assms
  by (auto simp: verifyApiKey_def validateApiKey_def recordApiRequest_def invalidKey_def Let_def
      update_conv' split: option.splits)

lemma verifyApiKeys_key:
  assumes "map_of keys key = Some s" "0 \<le> remainingRequests s"
  shows "(\<exists>s'. map_of (snd (verifyApiKeys keys reqs)) key = Some s'
            \<and> 0 \<le> remainingRequests s' \<and> remainingRequests s' \<le> remainingRequests s)
       \<and> (\<forall>(req, r) \<in> set (zip reqs (fst (verifyApiKeys keys reqs))).
             snd req = Some key \<longrightarrow> (\<forall>v n. r = Next v n \<longrightarrow> 0 \<le> n))"
  using assms
proof (induction reqs arbitrary: keys s)
  case Nil
  then show ?case by simp
next
  case (Cons a reqs)
  obtain now header where a: "a = (now, header)" by (cases a)
  obtain r keys' where st: "verifyApiKey now keys header = (r, keys')"
    by (cases "verifyApiKey now keys header")
  from verify_step_key [OF Cons.prems, of now header]
  have "\<exists>s'. map_of keys' key = Some s' \<and> 0 \<le> remainingRequests s'
            \<and> remainingRequests s' \<le> remainingRequests s
            \<and> (header = Some key \<longrightarrow> (\<forall>v n. r = Next v n \<longrightarrow> n = remainingRequests s'))"
    unfolding st by simp
  then obtain s' where s': "map_of keys' key = Some s'" "0 \<le> remainingRequests s'"
      "remainingRequests s' \<le> remainingRequests s"
      "header = Some key \<longrightarrow> (\<forall>v n. r = Next v n \<longrightarrow> n = remainingRequests s')"
    by blast
  obtain rs keys'' where rest: "verifyApiKeys keys' reqs = (rs, keys'')"
    by (cases "verifyApiKeys keys' reqs")
  from Cons.IH [OF s'(1,2)] rest
  have ih: "\<exists>s''. map_of keys'' key = Some s'' \<and> 0 \<le> remainingRequests s''
                \<and> remainingRequests s'' \<le> remainingRequests s'"
       "\<forall>(req, r) \<in> set (zip reqs rs). snd req = Some key \<longrightarrow> (\<forall>v n. r = Next v n \<longrightarrow> 0 \<le> n)"
    by simp_all
  from ih(1) s'(3) have one: "\<exists>s''. map_of keys'' key = Some s'' \<and> 0 \<le> remainingRequests s''
                \<and> remainingRequests s'' \<le> remainingRequests s"
    by auto
  from s'(2,4) ih(2) have two:
    "\<forall>(req, r) \<in> set (zip (a # reqs) (r # rs)). snd req = Some key \<longrightarrow> (\<forall>v n. r = Next v n \<longrightarrow> 0 \<le> n)"
    by (auto simp: a)
  from one two show ?case by (simp add: a st rest)
qed

lemma verify_pass_ex:
  assumes "map_of keys key = Some sub" "sub_active sub" "now \<le> endDate sub"
    "0 < remainingRequests sub" "key \<noteq> []"
  shows "\<exists>v keys' sub'. verifyApiKey now keys (Some key) = (Next v (remainingRequests sub - 1), keys')
           \<and> map_of keys' key = Some sub' \<and> sub_active sub' \<and> endDate sub' = endDate sub
           \<and> remainingRequests sub' = remainingRequests sub - 1"
  using assms unfolding verify_pass [OF assms] by (simp add: update_conv')

lemma create_key:
  "fst (fst (createApiKey addDays ra rb start table owner org email days limit)) = generateRandomApiKey ra rb
   \<and> (\<exists>sub. map_of (snd (createApiKey addDays ra rb start table owner org email days limit))
                 (generateRandomApiKey ra rb) = Some sub
            \<and> sub_active sub \<and> endDate sub = addDays start days \<and> remainingRequests sub = limit)"
  by (simp add: createApiKey_def Let_def update_conv')

lemma key_nonempty: "generateRandomApiKey ra rb \<noteq> []"
  by (simp add: generateRandomApiKey_def)

text \<open>
  C3, as the code behaves. For a key issued with budget 3, three requests through the
  middleware that are made no later than the end date pass, with the remaining budgets
  2, 1 and 0; a fourth request, at whatever time, is answered with status 401 and the
  code \<open>INVALID_API_KEY\<close>, and the budget stays 0. After any sequence of requests
  through the middleware the budget of the key is not negative, and no request with
  this key is handed on with a negative remaining budget.
\<close>

theorem quota_sequence:
  "(ta \<le> addDays start days \<and> tb \<le> addDays start days \<and> tc \<le> addDays start days \<longrightarrow>
      (\<exists>v1 v2 v3 keys4 s.
          verifyApiKeys (snd (createApiKey addDays ra rb start table owner org email days 3))
             [(ta, Some (generateRandomApiKey ra rb)), (tb, Some (generateRandomApiKey ra rb)),
              (tc, Some (generateRandomApiKey ra rb)), (td, Some (generateRandomApiKey ra rb))]
            = ([Next v1 2, Next v2 1, Next v3 0, Respond 401 ''INVALID_API_KEY''], keys4)
          \<and> map_of keys4 (generateRandomApiKey ra rb) = Some s \<and> remainingRequests s = 0))
   \<and> (\<exists>s. map_of (snd (verifyApiKeys
                 (snd (createApiKey addDays ra rb start table owner org email days 3)) reqs))
               (generateRandomApiKey ra rb) = Some s
            \<and> 0 \<le> remainingRequests s)
   \<and> (\<forall>(req, r) \<in> set (zip reqs (fst (verifyApiKeys
                 (snd (createApiKey addDays ra rb start table owner org email days 3)) reqs))).
          snd req = Some (generateRandomApiKey ra rb) \<longrightarrow> (\<forall>v n. r = Next v n \<longrightarrow> 0 \<le> n))"
proof -
  define key where "key = generateRandomApiKey ra rb"
  define keys1 where "keys1 = snd (createApiKey addDays ra rb start table owner org email days 3)"
  have ne: "key \<noteq> []" by (simp add: key_def key_nonempty)
  from create_key [of addDays ra rb start table owner org email days 3]
  obtain sub where sub: "map_of keys1 key = Some sub" "sub_active sub"
      "endDate sub = addDays start days" "remainingRequests sub = 3"
    unfolding key_def keys1_def by blast
  have seq: "\<exists>v1 v2 v3 keys4 s.
          verifyApiKeys keys1 [(ta, Some key), (tb, Some key), (tc, Some key), (td, Some key)]
            = ([Next v1 2, Next v2 1, Next v3 0, Respond 401 ''INVALID_API_KEY''], keys4)
          \<and> map_of keys4 key = Some s \<and> remainingRequests s = 0"
    if t: "ta \<le> addDays start days \<and> tb \<le> addDays start days \<and> tc \<le> addDays start days"
  proof -
    from verify_pass_ex [OF sub(1,2) _ _ ne, of ta] sub(3,4) t
    obtain v1 keys2 sub2 where 1: "verifyApiKey ta keys1 (Some key) = (Next v1 2, keys2)"
        "map_of keys2 key = Some sub2" "sub_active sub2" "endDate sub2 = addDays start days"
        "remainingRequests sub2 = 2"
      by auto
    from verify_pass_ex [OF 1(2,3) _ _ ne, of tb] 1(4,5) t
    obtain v2 keys3 sub3 where 2: "verifyApiKey tb keys2 (Some key) = (Next v2 1, keys3)"
        "map_of keys3 key = Some sub3" "sub_active sub3" "endDate sub3 = addDays start days"
        "remainingRequests sub3 = 1"
      by auto
    from verify_pass_ex [OF 2(2,3) _ _ ne, of tc] 2(4,5) t
    obtain v3 keys4 sub4 where 3: "verifyApiKey tc keys3 (Some key) = (Next v3 0, keys4)"
        "map_of keys4 key = Some sub4" "remainingRequests sub4 = 0"
      by auto
    from verify_exhausted [OF 3(2) _ ne, of td] 3(3)
    have 4: "verifyApiKey td keys4 (Some key) = (Respond 401 ''INVALID_API_KEY'', keys4)"
      by simp
    show ?thesis
      using 1(1) 2(1) 3 4 by simp
  qed
  from verifyApiKeys_key [OF sub(1), of reqs] sub(4)
  have inv: "(\<exists>s. map_of (snd (verifyApiKeys keys1 reqs)) key = Some s \<and> 0 \<le> remainingRequests s)"
    "(\<forall>(req, r) \<in> set (zip reqs (fst (verifyApiKeys keys1 reqs))).
          snd req = Some key \<longrightarrow> (\<forall>v n. r = Next v n \<longrightarrow> 0 \<le> n))"
    by auto
  from seq inv show ?thesis
    unfolding key_def keys1_def by blast
qed

theorem quota_sequence_witness:
  "\<exists>v1 v2 v3 keys4.
     verifyApiKeys (snd (createApiKey (\<lambda>t d. t + d * 86400000) ''abc'' ''def'' 0 []
             ''0xabc'' ''Acme'' ''a@b.c'' 30 3))
       [(1, Some ''qs_abcdef''), (2, Some ''qs_abcdef''), (3, Some ''qs_abcdef''),
        (4, Some ''qs_abcdef'')]
     = ([Next v1 2, Next v2 1, Next v3 0, Respond 401 ''INVALID_API_KEY''], keys4)"
  using quota_sequence
    [where addDays = "\<lambda>t d. t + d * 86400000" and ra = "''abc''" and rb = "''def''"
       and start = 0 and table = "[]" and owner = "''0xabc''" and org = "''Acme''"
       and email = "''a@b.c''" and days = 30
       and ta = 1 and tb = 2 and tc = 3 and td = 4 and reqs = "[]"]
  by (simp add: generateRandomApiKey_def) blast

text \<open>
  C3 as worded expects the fourth attempt to fail with an error of its own for the
  exhausted quota. The middleware answers it exactly as it answers a key that was never
  issued.
\<close>

theorem quota_exhausted_counterexample:
  "fst (verifyApiKeys (snd (createApiKey (\<lambda>t d. t + d * 86400000) ''abc'' ''def'' 0 []
             ''0xabc'' ''Acme'' ''a@b.c'' 30 3))
       [(1, Some ''qs_abcdef''), (2, Some ''qs_abcdef''), (3, Some ''qs_abcdef''),
        (4, Some ''qs_abcdef'')]) ! 3
     = Respond 401 ''INVALID_API_KEY''
   \<and> fst (verifyApiKey 4 (snd (createApiKey (\<lambda>t d. t + d * 86400000) ''abc'' ''def'' 0 []
             ''0xabc'' ''Acme'' ''a@b.c'' 30 3)) (Some ''qs_never_issued''))
     = Respond 401 ''INVALID_API_KEY''"
  by (simp add: createApiKey_def generateRandomApiKey_def verifyApiKey_def validateApiKey_def
      recordApiRequest_def invalidKey_def Let_def)

text \<open>
  C7. What \<open>validateApiKey\<close> computes, to set against the claim: the result is valid
  exactly when the subscription of the key exists, is active, has an end date that is
  not before the clock, and has a positive remaining budget; otherwise it is
  \<open>{ valid: false }\<close>; the key table is returned as it was given. The claim has a key
  valid only strictly before its end date, as the contract of the service and
  \<open>hasActiveSubscription\<close> have it (\<open>endTime > now\<close>); here the test is
  \<open>endDate < now\<close> for an expired key, so that at the instant of the end date the key
  is still valid. The instance below evaluates this: end date 1000, valid at 500 and at
  1000, invalid at 1001.
\<close>

theorem validate_characterisation:
  "(valid (fst (validateApiKey now keys key)) \<longleftrightarrow>
      (\<exists>sub. map_of keys key = Some sub \<and> sub_active sub \<and> now \<le> endDate sub
             \<and> 0 < remainingRequests sub))
   \<and> (\<not> valid (fst (validateApiKey now keys key)) \<longrightarrow>
         fst (validateApiKey now keys key) = invalidKey)
   \<and> snd (validateApiKey now keys key) = keys"
  using validate_valid_iff [of now keys key] validate_invalid [of now keys key]
    validate_keys [of now keys key]
  by blast

theorem validate_at_end_date:
  "valid (fst (validateApiKey 500 [(''qs_k'', \<lparr> sub_id = 1, apiKey = ''qs_k'', subscriber = ''0xabc'',
          organizationName = ''Acme'', contactEmail = ''a@b.c'', startDate = 0,
          endDate = 1000, sub_active = True, remainingRequests = 5,
          lastRequestDate = None \<rparr>)] ''qs_k''))
   \<and> valid (fst (validateApiKey 1000 [(''qs_k'', \<lparr> sub_id = 1, apiKey = ''qs_k'', subscriber = ''0xabc'',
          organizationName = ''Acme'', contactEmail = ''a@b.c'', startDate = 0,
          endDate = 1000, sub_active = True, remainingRequests = 5,
          lastRequestDate = None \<rparr>)] ''qs_k''))
   \<and> fst (validateApiKey 1001 [(''qs_k'', \<lparr> sub_id = 1, apiKey = ''qs_k'', subscriber = ''0xabc'',
          organizationName = ''Acme'', contactEmail = ''a@b.c'', startDate = 0,
          endDate = 1000, sub_active = True, remainingRequests = 5,
          lastRequestDate = None \<rparr>)] ''qs_k'') = invalidKey"
  using validate_characterisation [of 500 "[(''qs_k'', \<lparr> sub_id = 1, apiKey = ''qs_k'', subscriber = ''0xabc'',
          organizationName = ''Acme'', contactEmail = ''a@b.c'', startDate = 0,
          endDate = 1000, sub_active = True, remainingRequests = 5,
          lastRequestDate = None \<rparr>)]" "''qs_k''"]
    validate_characterisation [of 1000 "[(''qs_k'', \<lparr> sub_id = 1, apiKey = ''qs_k'', subscriber = ''0xabc'',
          organizationName = ''Acme'', contactEmail = ''a@b.c'', startDate = 0,
          endDate = 1000, sub_active = True, remainingRequests = 5,
          lastRequestDate = None \<rparr>)]" "''qs_k''"]
    validate_characterisation [of 1001 "[(''qs_k'', \<lparr> sub_id = 1, apiKey = ''qs_k'', subscriber = ''0xabc'',
          organizationName = ''Acme'', contactEmail = ''a@b.c'', startDate = 0,
          endDate = 1000, sub_active = True, remainingRequests = 5,
          lastRequestDate = None \<rparr>)]" "''qs_k''"]
  by simp

section \<open>Properties of the parser\<close>

lemma parseFeature_throws: "\<not> hasStructure f \<Longrightarrow> parseFeature f = Inl TypeError"
  by (auto simp: hasStructure_def parseFeature_def split: option.splits)

lemma parseFeature_ok:
  assumes "geometry f = Some g" "coordinates g = Some cs" "properties f = Some p"
  shows "parseFeature f =
     Inr \<lparr> p_place = raw_place p, p_magnitude = raw_mag p, p_depth = element cs 2,
           p_latitude = element cs 1, p_longitude = element cs 0, p_time = raw_time p,
           p_source = ''USGS'', p_url = raw_url p, p_tsunami = (raw_tsunami p = Some 1),
           p_verified = False \<rparr>"
  using assms by (simp add: parseFeature_def)

lemma parseFeature_returns: "hasStructure f \<Longrightarrow> \<exists>q. parseFeature f = Inr q"
  by (auto simp: hasStructure_def parseFeature_ok)

lemma mapFeatures_throws:
  "\<exists>f \<in> set fs. \<not> hasStructure f \<Longrightarrow> mapFeatures fs = Inl TypeError"
proof (induction fs)
  case Nil
  then show ?case by simp
next
  case (Cons f fs)
  show ?case
  proof (cases "hasStructure f")
    case False
    then show ?thesis by (simp add: parseFeature_throws)
  next
    case True
    with Cons.prems have "\<exists>f \<in> set fs. \<not> hasStructure f" by auto
    with Cons.IH have "mapFeatures fs = Inl TypeError" by simp
    moreover from True obtain q where "parseFeature f = Inr q"
      using parseFeature_returns by blast
    ultimately show ?thesis by simp
  qed
qed

lemma mapFeatures_returns:
  "\<forall>f \<in> set fs. hasStructure f \<Longrightarrow>
     \<exists>qs. mapFeatures fs = Inr qs \<and> map Inr qs = map parseFeature fs"
proof (induction fs)
  case Nil
  then show ?case by simp
next
  case (Cons f fs)
  then obtain q where q: "parseFeature f = Inr q"
    using parseFeature_returns [of f] by auto
  from Cons obtain qs where "mapFeatures fs = Inr qs" "map Inr qs = map parseFeature fs"
    by auto
  with q show ?case by simp
qed

text \<open>
  C8, as the code behaves. When some feature of a batch lacks its properties, its
  geometry or the coordinate array, the whole batch parses to the empty list. When no
  feature does, every feature is parsed, in order. A feature that has them but lacks
  the magnitude, the time or a coordinate is not skipped: it is parsed with that field
  undefined.
\<close>

theorem parse_all_or_nothing:
  "features rawData = Some fs \<longrightarrow>
     ((\<exists>f \<in> set fs. \<not> hasStructure f) \<longrightarrow> parseEarthquakeData rawData = [])
   \<and> ((\<forall>f \<in> set fs. hasStructure f) \<longrightarrow>
         map Inr (parseEarthquakeData rawData) = map parseFeature fs)
   \<and> (\<forall>f \<in> set fs. \<forall>g cs p.
         geometry f = Some g \<and> coordinates g = Some cs \<and> properties f = Some p \<longrightarrow>
         (\<exists>q. parseFeature f = Inr q \<and> p_magnitude q = raw_mag p \<and> p_time q = raw_time p
              \<and> p_longitude q = element cs 0 \<and> p_latitude q = element cs 1
              \<and> p_depth q = element cs 2))"
proof (intro impI conjI ballI allI)
  assume fs: "features rawData = Some fs"
  show "parseEarthquakeData rawData = []" if "\<exists>f \<in> set fs. \<not> hasStructure f"
    using mapFeatures_throws [OF that] fs by (simp add: parseEarthquakeData_def)
  show "map Inr (parseEarthquakeData rawData) = map parseFeature fs"
    if "\<forall>f \<in> set fs. hasStructure f"
    using mapFeatures_returns [OF that] fs by (auto simp: parseEarthquakeData_def)
  show "\<exists>q. parseFeature f = Inr q \<and> p_magnitude q = raw_mag p \<and> p_time q = raw_time p
              \<and> p_longitude q = element cs 0 \<and> p_latitude q = element cs 1
              \<and> p_depth q = element cs 2"
    if "geometry f = Some g \<and> coordinates g = Some cs \<and> properties f = Some p"
    for f g cs p
    using that by (simp add: parseFeature_ok)
qed

theorem parse_all_or_nothing_witness:
  "parseEarthquakeData
     \<lparr> features = Some
        [\<lparr> properties = Some \<lparr> raw_place = Some ''Northern California'', raw_mag = Some 3.5,
                               raw_time = Some 1000, raw_url = None, raw_tsunami = Some 0 \<rparr>,
           geometry = Some \<lparr> coordinates = Some [-121.5, 38.2, 10.2] \<rparr> \<rparr>,
         \<lparr> properties = Some \<lparr> raw_place = Some ''Southern Alaska'', raw_mag = Some 4.2,
                               raw_time = Some 2000, raw_url = None, raw_tsunami = Some 0 \<rparr>,
           geometry = None \<rparr>] \<rparr> = []"
  using parse_all_or_nothing
    [where rawData = "\<lparr> features = Some
        [\<lparr> properties = Some \<lparr> raw_place = Some ''Northern California'', raw_mag = Some 3.5,
                               raw_time = Some 1000, raw_url = None, raw_tsunami = Some 0 \<rparr>,
           geometry = Some \<lparr> coordinates = Some [-121.5, 38.2, 10.2] \<rparr> \<rparr>,
         \<lparr> properties = Some \<lparr> raw_place = Some ''Southern Alaska'', raw_mag = Some 4.2,
                               raw_time = Some 2000, raw_url = None, raw_tsunami = Some 0 \<rparr>,
           geometry = None \<rparr>] \<rparr>"
      and fs = "[\<lparr> properties = Some \<lparr> raw_place = Some ''Northern California'', raw_mag = Some 3.5,
                               raw_time = Some 1000, raw_url = None, raw_tsunami = Some 0 \<rparr>,
           geometry = Some \<lparr> coordinates = Some [-121.5, 38.2, 10.2] \<rparr> \<rparr>,
         \<lparr> properties = Some \<lparr> raw_place = Some ''Southern Alaska'', raw_mag = Some 4.2,
                               raw_time = Some 2000, raw_url = None, raw_tsunami = Some 0 \<rparr>,
           geometry = None \<rparr>]"]
  by (simp add: hasStructure_def)

text \<open>
  C8 as worded has a malformed record skipped and the others parsed. A well-formed
  record followed by one without geometry yields no record at all; and a record
  without magnitude, time and coordinates is kept, its magnitude undefined.
\<close>

theorem parse_skips_individually_counterexample:
  "parseEarthquakeData
     \<lparr> features = Some
        [\<lparr> properties = Some \<lparr> raw_place = Some ''Northern California'', raw_mag = Some 3.5,
                               raw_time = Some 1000, raw_url = None, raw_tsunami = Some 0 \<rparr>,
           geometry = Some \<lparr> coordinates = Some [-121.5, 38.2, 10.2] \<rparr> \<rparr>,
         \<lparr> properties = Some \<lparr> raw_place = Some ''Southern Alaska'', raw_mag = Some 4.2,
                               raw_time = Some 2000, raw_url = None, raw_tsunami = Some 0 \<rparr>,
           geometry = None \<rparr>] \<rparr> = []
   \<and> map p_magnitude (parseEarthquakeData
     \<lparr> features = Some
        [\<lparr> properties = Some \<lparr> raw_place = Some ''Southern Alaska'', raw_mag = None,
                               raw_time = None, raw_url = None, raw_tsunami = Some 0 \<rparr>,
           geometry = Some \<lparr> coordinates = Some [] \<rparr> \<rparr>] \<rparr>) = [None]"
  by (simp add: parseEarthquakeData_def parseFeature_def element_def)

section \<open>Properties of the market correlation module\<close>

lemma findIndex_None_iff: "findIndex P xs = None \<longleftrightarrow> (\<forall>x \<in> set xs. \<not> P x)"
  by (induction xs) (auto split: option.splits)

lemma findIndex_SomeD:
  "findIndex P xs = Some i \<Longrightarrow> i < length xs \<and> P (xs ! i)"
  by (induction xs arbitrary: i) (auto split: option.splits if_splits)

lemma findIndex_unique:
  assumes "i < length xs" "P (xs ! i)" "\<forall>j < length xs. P (xs ! j) \<longrightarrow> j = i"
  shows "findIndex P xs = Some i"
proof (cases "findIndex P xs")
  case None
  with assms(1,2) show ?thesis by (auto simp: findIndex_None_iff)
next
  case (Some k)
  from findIndex_SomeD [OF Some] assms(3) have "k = i" by blast
  with Some show ?thesis by simp
qed

lemma applyQuake_skip:
  "formatDate (time e) \<notin> date ` set xs \<Longrightarrow> applyQuake formatDate pair e xs = xs"
proof -
  assume "formatDate (time e) \<notin> date ` set xs"
  then have "findIndex (\<lambda>r. date r = formatDate (time e)) xs = None"
    unfolding findIndex_None_iff by (metis imageI)
  then show ?thesis by (simp add: applyQuake_def)
qed

lemma fold_skip:
  "\<forall>e \<in> set es. magnitude e < 5.0 \<or> formatDate (time e) \<notin> date ` set xs \<Longrightarrow>
     fold (applyQuake formatDate pair) (filter (\<lambda>eq. magnitude eq \<ge> 5.0) es) xs = xs"
  by (induction es) (auto simp: applyQuake_skip)

lemma map_date_update:
  "k < length xs \<Longrightarrow> date y = date (xs ! k) \<Longrightarrow> map date (xs[k := y]) = map date xs"
  by (simp add: map_update list_update_same_conv)

lemma applyQuake_dates: "map date (applyQuake formatDate pair e xs) = map date xs"
proof (cases "findIndex (\<lambda>r. date r = formatDate (time e)) xs")
  case None
  then show ?thesis by (simp add: applyQuake_def)
next
  case (Some k)
  from findIndex_SomeD [OF Some] have k: "k < length xs" by simp
  show ?thesis
    using k by (simp add: applyQuake_def Some Let_def map_date_update)
qed

lemma applyQuake_hit:
  assumes "findIndex (\<lambda>r. date r = formatDate (time q)) xs = Some i"
    and "base pair = ''USD''" and "7.0 \<le> magnitude q"
  shows "length (applyQuake formatDate pair q xs) = length xs"
    and "rate (applyQuake formatDate pair q xs ! i)
           = toFixed4 (fmul (rate (xs ! i)) (fadd 1 (fmul (- 1) (fl 0.02))))"
    and "i + 1 < length xs \<Longrightarrow>
           rate (applyQuake formatDate pair q xs ! (i + 1))
             = toFixed4 (fmul (rate (xs ! (i + 1))) (fadd 1 (fmul (- 1) (fmul (fl 0.02) (fl 0.4)))))"
    and "j < length xs \<Longrightarrow> j \<noteq> i \<Longrightarrow> j \<noteq> i + 1 \<Longrightarrow>
           rate (applyQuake formatDate pair q xs ! j) = rate (xs ! j)"
proof -
  from findIndex_SomeD [OF assms(1)] have i: "i < length xs" by simp
  show "length (applyQuake formatDate pair q xs) = length xs"
    by (simp add: applyQuake_def assms(1) Let_def)
  show "rate (applyQuake formatDate pair q xs ! i)
           = toFixed4 (fmul (rate (xs ! i)) (fadd 1 (fmul (- 1) (fl 0.02))))"
    using i assms(2,3) by (simp add: applyQuake_def assms(1) Let_def)
  show "rate (applyQuake formatDate pair q xs ! (i + 1))
             = toFixed4 (fmul (rate (xs ! (i + 1))) (fadd 1 (fmul (- 1) (fmul (fl 0.02) (fl 0.4)))))" if "i + 1 < length xs"
    using that i assms(2,3) by (simp add: applyQuake_def assms(1) Let_def)
  show "rate (applyQuake formatDate pair q xs ! j) = rate (xs ! j)"
    if "j < length xs" "j \<noteq> i" "j \<noteq> i + 1"
    using that i assms(2,3) by (simp add: applyQuake_def assms(1) Let_def)
qed

lemma enrich_single:
  assumes "\<forall>e \<in> set pre \<union> set post. magnitude e < 5.0 \<or> formatDate (time e) \<notin> date ` set xs"
    and "5.0 \<le> magnitude q"
  shows "enrichExchangeRateDataWithEarthquakes formatDate xs (pre @ q # post) pair
           = applyQuake formatDate pair q xs"
proof -
  have pre: "fold (applyQuake formatDate pair) (filter (\<lambda>eq. magnitude eq \<ge> 5.0) pre) xs = xs"
    using assms(1) by (intro fold_skip) auto
  have "date ` set (applyQuake formatDate pair q xs) = date ` set xs"
    using applyQuake_dates [of formatDate pair q xs] by (metis set_map)
  with assms(1)
  have post: "fold (applyQuake formatDate pair) (filter (\<lambda>eq. magnitude eq \<ge> 5.0) post)
                (applyQuake formatDate pair q xs) = applyQuake formatDate pair q xs"
    by (intro fold_skip) auto
  have split: "filter (\<lambda>eq. magnitude eq \<ge> 5.0) (pre @ q # post)
      = filter (\<lambda>eq. magnitude eq \<ge> 5.0) pre @ q # filter (\<lambda>eq. magnitude eq \<ge> 5.0) post"
    using assms(2) by simp
  show ?thesis
    unfolding enrichExchangeRateDataWithEarthquakes_def Let_def split
    by (simp only: fold_append fold_simps o_apply pre post)
qed

text \<open>
  The constants of the overlay as doubles, and the two sample rates used below.
\<close>

lemma fl_0_02: "fl 0.02 = 5764607523034235 / 2 ^ 58"
  using fl_binade [of "- 6" "0.02"] by (simp add: pow2_def roundTiesToEven_def)

lemma fl_0_4: "fl 0.4 = 7205759403792794 / 2 ^ 54"
  using fl_binade [of "- 2" "0.4"] by (simp add: pow2_def roundTiesToEven_def)

lemma impact_factor: "fadd 1 (fmul (- 1) (fl 0.02)) = 8827055269646172 / 2 ^ 53"
proof -
  have "fmul (- 1) (fl 0.02) = - (5764607523034235 / 2 ^ 58)"
    unfolding fmul_def fl_0_02
    using fl_binade [of "- 6" "- 1 * (5764607523034235 / 2 ^ 58)"]
    by (simp add: pow2_def roundTiesToEven_def)
  then show ?thesis
    unfolding fadd_def
    using fl_binade [of "- 1" "1 + - (5764607523034235 / 2 ^ 58)"]
    by (simp add: pow2_def roundTiesToEven_def)
qed

lemma aftershock_factor:
  "fadd 1 (fmul (- 1) (fmul (fl 0.02) (fl 0.4))) = 8935141660703064 / 2 ^ 53"
proof -
  have a: "fmul (fl 0.02) (fl 0.4) = 4611686018427388 / 2 ^ 59"
    unfolding fmul_def fl_0_02 fl_0_4
    using fl_binade [of "- 7" "5764607523034235 / 2 ^ 58 * (7205759403792794 / 2 ^ 54)"]
    by (simp add: pow2_def roundTiesToEven_def)
  have "fmul (- 1) (4611686018427388 / 2 ^ 59) = - (4611686018427388 / 2 ^ 59)"
    unfolding fmul_def
    using fl_binade [of "- 7" "- 1 * (4611686018427388 / 2 ^ 59)"]
    by (simp add: pow2_def roundTiesToEven_def)
  then show ?thesis
    unfolding a fadd_def
    using fl_binade [of "- 1" "1 + - (4611686018427388 / 2 ^ 59)"]
    by (simp add: pow2_def roundTiesToEven_def)
qed

lemma fl_1_3425: "fl 1.3425 = 6046082499744891 / 2 ^ 52"
  using fl_binade [of 0 "1.3425"] by (simp add: pow2_def roundTiesToEven_def)

lemma fl_1_3512: "fl 1.3512 = 6085263816503014 / 2 ^ 52"
  using fl_binade [of 0 "1.3512"] by (simp add: pow2_def roundTiesToEven_def)

lemma fl_1_3404: "fl 1.3404 = 6036624940527413 / 2 ^ 52"
  using fl_binade [of 0 "1.3404"] by (simp add: pow2_def roundTiesToEven_def)

lemma impacted_1_3425:
  "toFixed4 (fmul (fl 1.3425) (fadd 1 (fmul (- 1) (fl 0.02)))) = fl 1.3156"
proof -
  have p: "fmul (fl 1.3425) (8827055269646172 / 2 ^ 53) = 5925160849749993 / 2 ^ 52"
    unfolding fmul_def fl_1_3425
    using fl_binade [of 0 "6046082499744891 / 2 ^ 52 * (8827055269646172 / 2 ^ 53)"]
    by (simp add: pow2_def roundTiesToEven_def)
  have t: "toFixed4 (5925160849749993 / 2 ^ 52) = fl 1.3156"
    by (simp add: toFixed4_def)
  show ?thesis
    by (simp only: impact_factor p t)
qed

lemma aftershock_1_3512:
  "toFixed4 (fmul (fl 1.3512) (fadd 1 (fmul (- 1) (fmul (fl 0.02) (fl 0.4))))) = fl 1.3404"
proof -
  have p: "fmul (fl 1.3512) (8935141660703064 / 2 ^ 53) = 6036581705970990 / 2 ^ 52"
    unfolding fmul_def fl_1_3512
    using fl_binade [of 0 "6085263816503014 / 2 ^ 52 * (8935141660703064 / 2 ^ 53)"]
    by (simp add: pow2_def roundTiesToEven_def)
  have t: "toFixed4 (6036581705970990 / 2 ^ 52) = fl 1.3404"
    by (simp add: toFixed4_def)
  show ?thesis
    by (simp only: aftershock_factor p t)
qed

lemma exact_1_3425: "specRound4 (fl 1.3425 * (1 - 0.02)) = 1.3157"
  unfolding fl_1_3425 by (simp add: specRound4_def)

lemma exact_1_3512: "0.000009 < \<bar>fl 1.3404 - fl 1.3512 * (1 - 0.008)\<bar>"
  unfolding fl_1_3404 fl_1_3512 by simp

text \<open>
  C5, as the code behaves. The pair has base USD; \<open>q\<close> has magnitude at least 7.0 and
  is the only earthquake of the list that takes part (every other one is below 5.0 or
  falls on no date of the series); the sample at \<open>i\<close> is the only one dated as \<open>q\<close>. Then
  the result has the length and the dates of the series; the rate at \<open>i\<close> is the double
  product of the old rate and the double \<open>1 - 0.02\<close>, put through \<open>toFixed(4)\<close>; the rate
  at \<open>i + 1\<close>, if there is one, is the double product of the old rate and the double
  \<open>1 - 0.02 * 0.4\<close>, put through \<open>toFixed(4)\<close> as well; every other rate is unchanged.
\<close>

theorem correlation_overlay:
  assumes "base pair = ''USD''" and "7.0 \<le> magnitude q"
    and "\<forall>e \<in> set pre \<union> set post. magnitude e < 5.0 \<or> formatDate (time e) \<notin> date ` set xs"
    and "i < length xs" and "date (xs ! i) = formatDate (time q)"
    and "\<forall>j < length xs. date (xs ! j) = formatDate (time q) \<longrightarrow> j = i"
  shows "length (enrichExchangeRateDataWithEarthquakes formatDate xs (pre @ q # post) pair) = length xs
    \<and> map date (enrichExchangeRateDataWithEarthquakes formatDate xs (pre @ q # post) pair) = map date xs
    \<and> rate (enrichExchangeRateDataWithEarthquakes formatDate xs (pre @ q # post) pair ! i)
         = toFixed4 (fmul (rate (xs ! i)) (fadd 1 (fmul (- 1) (fl 0.02))))
    \<and> (i + 1 < length xs \<longrightarrow>
         rate (enrichExchangeRateDataWithEarthquakes formatDate xs (pre @ q # post) pair ! (i + 1))
           = toFixed4 (fmul (rate (xs ! (i + 1))) (fadd 1 (fmul (- 1) (fmul (fl 0.02) (fl 0.4))))))
    \<and> (\<forall>j < length xs. j \<noteq> i \<and> j \<noteq> i + 1 \<longrightarrow>
         rate (enrichExchangeRateDataWithEarthquakes formatDate xs (pre @ q # post) pair ! j)
           = rate (xs ! j))"
proof -
  have five: "5.0 \<le> magnitude q" using assms(2) by simp
  have idx: "findIndex (\<lambda>r. date r = formatDate (time q)) xs = Some i"
    by (rule findIndex_unique) (fact assms(4), fact assms(5), fact assms(6))
  note hit = applyQuake_hit [where formatDate = formatDate and q = q, OF idx assms(1,2)]
  show ?thesis
    unfolding enrich_single [OF assms(3) five]
  proof (intro conjI allI impI)
    show "length (applyQuake formatDate pair q xs) = length xs" by (rule hit(1))
    show "map date (applyQuake formatDate pair q xs) = map date xs" by (rule applyQuake_dates)
    show "rate (applyQuake formatDate pair q xs ! i)
           = toFixed4 (fmul (rate (xs ! i)) (fadd 1 (fmul (- 1) (fl 0.02))))"
      by (rule hit(2))
    show "rate (applyQuake formatDate pair q xs ! (i + 1))
           = toFixed4 (fmul (rate (xs ! (i + 1))) (fadd 1 (fmul (- 1) (fmul (fl 0.02) (fl 0.4)))))" if "i + 1 < length xs"
      using that by (rule hit(3))
    show "rate (applyQuake formatDate pair q xs ! j) = rate (xs ! j)"
      if "j < length xs" "j \<noteq> i \<and> j \<noteq> i + 1" for j
      using that by (intro hit(4)) simp_all
  qed
qed

theorem correlation_overlay_witness:
  "rate (enrichExchangeRateDataWithEarthquakes (\<lambda>_. ''2024-01-01'')
       [\<lparr> date = ''2024-01-01'', rate = fl 1.3425, rate_earthquake = None \<rparr>,
        \<lparr> date = ''2024-01-02'', rate = fl 1.3512, rate_earthquake = None \<rparr>,
        \<lparr> date = ''2024-01-03'', rate = fl 1.3512, rate_earthquake = None \<rparr>]
       [\<lparr> place = ''Sumatra'', magnitude = 7.5, depth = 10, latitude = 0, longitude = 0,
          time = 0, flareNetworkId = None, verified = False,
          source = ''USGS'', url = None, tsunami = False,
          quake_id = ''eq_q'', createdAt = 0, flareVerified = False \<rparr>]
       \<lparr> base = ''USD'', quote = ''SGD'', pair_name = ''USD/SGD'' \<rparr> ! 0) = fl 1.3156
   \<and> rate (enrichExchangeRateDataWithEarthquakes (\<lambda>_. ''2024-01-01'')
       [\<lparr> date = ''2024-01-01'', rate = fl 1.3425, rate_earthquake = None \<rparr>,
        \<lparr> date = ''2024-01-02'', rate = fl 1.3512, rate_earthquake = None \<rparr>,
        \<lparr> date = ''2024-01-03'', rate = fl 1.3512, rate_earthquake = None \<rparr>]
       [\<lparr> place = ''Sumatra'', magnitude = 7.5, depth = 10, latitude = 0, longitude = 0,
          time = 0, flareNetworkId = None, verified = False,
          source = ''USGS'', url = None, tsunami = False,
          quake_id = ''eq_q'', createdAt = 0, flareVerified = False \<rparr>]
       \<lparr> base = ''USD'', quote = ''SGD'', pair_name = ''USD/SGD'' \<rparr> ! 1) = fl 1.3404
   \<and> rate (enrichExchangeRateDataWithEarthquakes (\<lambda>_. ''2024-01-01'')
       [\<lparr> date = ''2024-01-01'', rate = fl 1.3425, rate_earthquake = None \<rparr>,
        \<lparr> date = ''2024-01-02'', rate = fl 1.3512, rate_earthquake = None \<rparr>,
        \<lparr> date = ''2024-01-03'', rate = fl 1.3512, rate_earthquake = None \<rparr>]
       [\<lparr> place = ''Sumatra'', magnitude = 7.5, depth = 10, latitude = 0, longitude = 0,
          time = 0, flareNetworkId = None, verified = False,
          source = ''USGS'', url = None, tsunami = False,
          quake_id = ''eq_q'', createdAt = 0, flareVerified = False \<rparr>]
       \<lparr> base = ''USD'', quote = ''SGD'', pair_name = ''USD/SGD'' \<rparr> ! 2) = fl 1.3512"
proof -
  have only: "\<forall>j < length [\<lparr> date = ''2024-01-01'', rate = fl 1.3425, rate_earthquake = None \<rparr>,
        \<lparr> date = ''2024-01-02'', rate = fl 1.3512, rate_earthquake = None \<rparr>,
        \<lparr> date = ''2024-01-03'', rate = fl 1.3512, rate_earthquake = None \<rparr>].
     date ([\<lparr> date = ''2024-01-01'', rate = fl 1.3425, rate_earthquake = None \<rparr>,
        \<lparr> date = ''2024-01-02'', rate = fl 1.3512, rate_earthquake = None \<rparr>,
        \<lparr> date = ''2024-01-03'', rate = fl 1.3512, rate_earthquake = None \<rparr>] ! j) = ''2024-01-01'' \<longrightarrow> j = 0"
    by (simp add: All_less_Suc nth_Cons')
  have "rate (enrichExchangeRateDataWithEarthquakes (\<lambda>_. ''2024-01-01'')
       [\<lparr> date = ''2024-01-01'', rate = fl 1.3425, rate_earthquake = None \<rparr>,
        \<lparr> date = ''2024-01-02'', rate = fl 1.3512, rate_earthquake = None \<rparr>,
        \<lparr> date = ''2024-01-03'', rate = fl 1.3512, rate_earthquake = None \<rparr>]
       [\<lparr> place = ''Sumatra'', magnitude = 7.5, depth = 10, latitude = 0, longitude = 0,
          time = 0, flareNetworkId = None, verified = False,
          source = ''USGS'', url = None, tsunami = False,
          quake_id = ''eq_q'', createdAt = 0, flareVerified = False \<rparr>]
       \<lparr> base = ''USD'', quote = ''SGD'', pair_name = ''USD/SGD'' \<rparr> ! 0)
       = toFixed4 (fmul (fl 1.3425) (fadd 1 (fmul (- 1) (fl 0.02))))
     \<and> rate (enrichExchangeRateDataWithEarthquakes (\<lambda>_. ''2024-01-01'')
       [\<lparr> date = ''2024-01-01'', rate = fl 1.3425, rate_earthquake = None \<rparr>,
        \<lparr> date = ''2024-01-02'', rate = fl 1.3512, rate_earthquake = None \<rparr>,
        \<lparr> date = ''2024-01-03'', rate = fl 1.3512, rate_earthquake = None \<rparr>]
       [\<lparr> place = ''Sumatra'', magnitude = 7.5, depth = 10, latitude = 0, longitude = 0,
          time = 0, flareNetworkId = None, verified = False,
          source = ''USGS'', url = None, tsunami = False,
          quake_id = ''eq_q'', createdAt = 0, flareVerified = False \<rparr>]
       \<lparr> base = ''USD'', quote = ''SGD'', pair_name = ''USD/SGD'' \<rparr> ! (0 + 1))
       = toFixed4 (fmul (fl 1.3512) (fadd 1 (fmul (- 1) (fmul (fl 0.02) (fl 0.4)))))
     \<and> rate (enrichExchangeRateDataWithEarthquakes (\<lambda>_. ''2024-01-01'')
       [\<lparr> date = ''2024-01-01'', rate = fl 1.3425, rate_earthquake = None \<rparr>,
        \<lparr> date = ''2024-01-02'', rate = fl 1.3512, rate_earthquake = None \<rparr>,
        \<lparr> date = ''2024-01-03'', rate = fl 1.3512, rate_earthquake = None \<rparr>]
       [\<lparr> place = ''Sumatra'', magnitude = 7.5, depth = 10, latitude = 0, longitude = 0,
          time = 0, flareNetworkId = None, verified = False,
          source = ''USGS'', url = None, tsunami = False,
          quake_id = ''eq_q'', createdAt = 0, flareVerified = False \<rparr>]
       \<lparr> base = ''USD'', quote = ''SGD'', pair_name = ''USD/SGD'' \<rparr> ! 2) = fl 1.3512"
    using correlation_overlay
      [where pair = "\<lparr> base = ''USD'', quote = ''SGD'', pair_name = ''USD/SGD'' \<rparr>"
         and q = "\<lparr> place = ''Sumatra'', magnitude = 7.5, depth = 10, latitude = 0, longitude = 0,
          time = 0, flareNetworkId = None, verified = False,
          source = ''USGS'', url = None, tsunami = False,
          quake_id = ''eq_q'', createdAt = 0, flareVerified = False \<rparr>"
         and pre = "[]" and post = "[]" and formatDate = "\<lambda>_. ''2024-01-01''"
         and xs = "[\<lparr> date = ''2024-01-01'', rate = fl 1.3425, rate_earthquake = None \<rparr>,
        \<lparr> date = ''2024-01-02'', rate = fl 1.3512, rate_earthquake = None \<rparr>,
        \<lparr> date = ''2024-01-03'', rate = fl 1.3512, rate_earthquake = None \<rparr>]"
         and i = 0, OF _ _ _ _ _ only]
    by simp
  then show ?thesis unfolding impacted_1_3425 aftershock_1_3512 by simp
qed

text \<open>
  C5 as worded has the matched rate multiplied by \<open>1 - 0.02\<close> and rounded to four
  decimals, and the next rate multiplied by \<open>1 - 0.008\<close>. For a matched rate of 1.3425
  the product rounds to 1.3157, and the code stores 1.3156: the double product lies
  below the tie. For a next-day rate of 1.3512 the product is 1.3403904, and the code
  stores 1.3404.
\<close>

theorem overlay_rounding_counterexample:
  "rate (enrichExchangeRateDataWithEarthquakes (\<lambda>_. ''2024-01-01'')
       [\<lparr> date = ''2024-01-01'', rate = fl 1.3425, rate_earthquake = None \<rparr>,
        \<lparr> date = ''2024-01-02'', rate = fl 1.3512, rate_earthquake = None \<rparr>,
        \<lparr> date = ''2024-01-03'', rate = fl 1.3512, rate_earthquake = None \<rparr>]
       [\<lparr> place = ''Sumatra'', magnitude = 7.5, depth = 10, latitude = 0, longitude = 0,
          time = 0, flareNetworkId = None, verified = False,
          source = ''USGS'', url = None, tsunami = False,
          quake_id = ''eq_q'', createdAt = 0, flareVerified = False \<rparr>]
       \<lparr> base = ''USD'', quote = ''SGD'', pair_name = ''USD/SGD'' \<rparr> ! 0) = fl 1.3156
   \<and> specRound4 (fl 1.3425 * (1 - 0.02)) = 1.3157
   \<and> rate (enrichExchangeRateDataWithEarthquakes (\<lambda>_. ''2024-01-01'')
       [\<lparr> date = ''2024-01-01'', rate = fl 1.3425, rate_earthquake = None \<rparr>,
        \<lparr> date = ''2024-01-02'', rate = fl 1.3512, rate_earthquake = None \<rparr>,
        \<lparr> date = ''2024-01-03'', rate = fl 1.3512, rate_earthquake = None \<rparr>]
       [\<lparr> place = ''Sumatra'', magnitude = 7.5, depth = 10, latitude = 0, longitude = 0,
          time = 0, flareNetworkId = None, verified = False,
          source = ''USGS'', url = None, tsunami = False,
          quake_id = ''eq_q'', createdAt = 0, flareVerified = False \<rparr>]
       \<lparr> base = ''USD'', quote = ''SGD'', pair_name = ''USD/SGD'' \<rparr> ! 1) = fl 1.3404
   \<and> 0.000009 < \<bar>fl 1.3404 - fl 1.3512 * (1 - 0.008)\<bar>"
proof -
  have idx: "findIndex (\<lambda>r. date r = ''2024-01-01'') [\<lparr> date = ''2024-01-01'', rate = fl 1.3425, rate_earthquake = None \<rparr>,
        \<lparr> date = ''2024-01-02'', rate = fl 1.3512, rate_earthquake = None \<rparr>,
        \<lparr> date = ''2024-01-03'', rate = fl 1.3512, rate_earthquake = None \<rparr>] = Some 0"
    by simp
  have e: "enrichExchangeRateDataWithEarthquakes (\<lambda>_. ''2024-01-01'')
       [\<lparr> date = ''2024-01-01'', rate = fl 1.3425, rate_earthquake = None \<rparr>,
        \<lparr> date = ''2024-01-02'', rate = fl 1.3512, rate_earthquake = None \<rparr>,
        \<lparr> date = ''2024-01-03'', rate = fl 1.3512, rate_earthquake = None \<rparr>]
       [\<lparr> place = ''Sumatra'', magnitude = 7.5, depth = 10, latitude = 0, longitude = 0,
          time = 0, flareNetworkId = None, verified = False,
          source = ''USGS'', url = None, tsunami = False,
          quake_id = ''eq_q'', createdAt = 0, flareVerified = False \<rparr>]
       \<lparr> base = ''USD'', quote = ''SGD'', pair_name = ''USD/SGD'' \<rparr>
     = applyQuake (\<lambda>_. ''2024-01-01'')
       \<lparr> base = ''USD'', quote = ''SGD'', pair_name = ''USD/SGD'' \<rparr>
       \<lparr> place = ''Sumatra'', magnitude = 7.5, depth = 10, latitude = 0, longitude = 0,
          time = 0, flareNetworkId = None, verified = False,
          source = ''USGS'', url = None, tsunami = False,
          quake_id = ''eq_q'', createdAt = 0, flareVerified = False \<rparr>
       [\<lparr> date = ''2024-01-01'', rate = fl 1.3425, rate_earthquake = None \<rparr>,
        \<lparr> date = ''2024-01-02'', rate = fl 1.3512, rate_earthquake = None \<rparr>,
        \<lparr> date = ''2024-01-03'', rate = fl 1.3512, rate_earthquake = None \<rparr>]"
    using enrich_single [where pre = "[]" and post = "[]" and formatDate = "\<lambda>_. ''2024-01-01''"
        and q = "\<lparr> place = ''Sumatra'', magnitude = 7.5, depth = 10, latitude = 0, longitude = 0,
          time = 0, flareNetworkId = None, verified = False,
          source = ''USGS'', url = None, tsunami = False,
          quake_id = ''eq_q'', createdAt = 0, flareVerified = False \<rparr>"]
    by simp
  have "rate (applyQuake (\<lambda>_. ''2024-01-01'')
       \<lparr> base = ''USD'', quote = ''SGD'', pair_name = ''USD/SGD'' \<rparr>
       \<lparr> place = ''Sumatra'', magnitude = 7.5, depth = 10, latitude = 0, longitude = 0,
          time = 0, flareNetworkId = None, verified = False,
          source = ''USGS'', url = None, tsunami = False,
          quake_id = ''eq_q'', createdAt = 0, flareVerified = False \<rparr>
       [\<lparr> date = ''2024-01-01'', rate = fl 1.3425, rate_earthquake = None \<rparr>,
        \<lparr> date = ''2024-01-02'', rate = fl 1.3512, rate_earthquake = None \<rparr>,
        \<lparr> date = ''2024-01-03'', rate = fl 1.3512, rate_earthquake = None \<rparr>] ! 0)
     = toFixed4 (fmul (rate ([\<lparr> date = ''2024-01-01'', rate = fl 1.3425, rate_earthquake = None \<rparr>,
        \<lparr> date = ''2024-01-02'', rate = fl 1.3512, rate_earthquake = None \<rparr>,
        \<lparr> date = ''2024-01-03'', rate = fl 1.3512, rate_earthquake = None \<rparr>] ! 0)) (fadd 1 (fmul (- 1) (fl 0.02))))"
    by (rule applyQuake_hit(2) [where formatDate = "\<lambda>_. ''2024-01-01''", OF idx]) simp_all
  also have "rate ([\<lparr> date = ''2024-01-01'', rate = fl 1.3425, rate_earthquake = None \<rparr>,
        \<lparr> date = ''2024-01-02'', rate = fl 1.3512, rate_earthquake = None \<rparr>,
        \<lparr> date = ''2024-01-03'', rate = fl 1.3512, rate_earthquake = None \<rparr>] ! 0) = fl 1.3425"
    by simp
  finally have first: "rate (enrichExchangeRateDataWithEarthquakes (\<lambda>_. ''2024-01-01'')
       [\<lparr> date = ''2024-01-01'', rate = fl 1.3425, rate_earthquake = None \<rparr>,
        \<lparr> date = ''2024-01-02'', rate = fl 1.3512, rate_earthquake = None \<rparr>,
        \<lparr> date = ''2024-01-03'', rate = fl 1.3512, rate_earthquake = None \<rparr>]
       [\<lparr> place = ''Sumatra'', magnitude = 7.5, depth = 10, latitude = 0, longitude = 0,
          time = 0, flareNetworkId = None, verified = False,
          source = ''USGS'', url = None, tsunami = False,
          quake_id = ''eq_q'', createdAt = 0, flareVerified = False \<rparr>]
       \<lparr> base = ''USD'', quote = ''SGD'', pair_name = ''USD/SGD'' \<rparr> ! 0) = fl 1.3156"
    unfolding e impacted_1_3425 .
  have "rate (applyQuake (\<lambda>_. ''2024-01-01'')
       \<lparr> base = ''USD'', quote = ''SGD'', pair_name = ''USD/SGD'' \<rparr>
       \<lparr> place = ''Sumatra'', magnitude = 7.5, depth = 10, latitude = 0, longitude = 0,
          time = 0, flareNetworkId = None, verified = False,
          source = ''USGS'', url = None, tsunami = False,
          quake_id = ''eq_q'', createdAt = 0, flareVerified = False \<rparr>
       [\<lparr> date = ''2024-01-01'', rate = fl 1.3425, rate_earthquake = None \<rparr>,
        \<lparr> date = ''2024-01-02'', rate = fl 1.3512, rate_earthquake = None \<rparr>,
        \<lparr> date = ''2024-01-03'', rate = fl 1.3512, rate_earthquake = None \<rparr>] ! (0 + 1))
     = toFixed4 (fmul (rate ([\<lparr> date = ''2024-01-01'', rate = fl 1.3425, rate_earthquake = None \<rparr>,
        \<lparr> date = ''2024-01-02'', rate = fl 1.3512, rate_earthquake = None \<rparr>,
        \<lparr> date = ''2024-01-03'', rate = fl 1.3512, rate_earthquake = None \<rparr>] ! (0 + 1))) (fadd 1 (fmul (- 1) (fmul (fl 0.02) (fl 0.4)))))"
    by (rule applyQuake_hit(3) [where formatDate = "\<lambda>_. ''2024-01-01''", OF idx]) simp_all
  also have "rate ([\<lparr> date = ''2024-01-01'', rate = fl 1.3425, rate_earthquake = None \<rparr>,
        \<lparr> date = ''2024-01-02'', rate = fl 1.3512, rate_earthquake = None \<rparr>,
        \<lparr> date = ''2024-01-03'', rate = fl 1.3512, rate_earthquake = None \<rparr>] ! (0 + 1)) = fl 1.3512"
    by simp
  finally have "rate (applyQuake (\<lambda>_. ''2024-01-01'')
       \<lparr> base = ''USD'', quote = ''SGD'', pair_name = ''USD/SGD'' \<rparr>
       \<lparr> place = ''Sumatra'', magnitude = 7.5, depth = 10, latitude = 0, longitude = 0,
          time = 0, flareNetworkId = None, verified = False,
          source = ''USGS'', url = None, tsunami = False,
          quake_id = ''eq_q'', createdAt = 0, flareVerified = False \<rparr>
       [\<lparr> date = ''2024-01-01'', rate = fl 1.3425, rate_earthquake = None \<rparr>,
        \<lparr> date = ''2024-01-02'', rate = fl 1.3512, rate_earthquake = None \<rparr>,
        \<lparr> date = ''2024-01-03'', rate = fl 1.3512, rate_earthquake = None \<rparr>] ! (0 + 1)) = fl 1.3404"
    unfolding aftershock_1_3512 .
  then have second: "rate (enrichExchangeRateDataWithEarthquakes (\<lambda>_. ''2024-01-01'')
       [\<lparr> date = ''2024-01-01'', rate = fl 1.3425, rate_earthquake = None \<rparr>,
        \<lparr> date = ''2024-01-02'', rate = fl 1.3512, rate_earthquake = None \<rparr>,
        \<lparr> date = ''2024-01-03'', rate = fl 1.3512, rate_earthquake = None \<rparr>]
       [\<lparr> place = ''Sumatra'', magnitude = 7.5, depth = 10, latitude = 0, longitude = 0,
          time = 0, flareNetworkId = None, verified = False,
          source = ''USGS'', url = None, tsunami = False,
          quake_id = ''eq_q'', createdAt = 0, flareVerified = False \<rparr>]
       \<lparr> base = ''USD'', quote = ''SGD'', pair_name = ''USD/SGD'' \<rparr> ! 1) = fl 1.3404"
    unfolding e by simp
  from first second exact_1_3425 exact_1_3512 show ?thesis by simp
qed

end
